theory Spec2Isabelle
  imports Complex_Main
begin

section \<open>Python values, exceptions and the outside world\<close>

text \<open>
  The program is one Python class, \<open>RealLLMFunctionCalling\<close> (src/main.py): five tool
  adapters, the dispatcher \<open>execute_function_call\<close> and the orchestration loop
  \<open>chat_with_function_calling\<close>. Values that travel as JSON or as keyword arguments
  are not type-checked by the program, so they are modelled by one datatype of Python
  values. A \<open>dict\<close> keeps insertion order and is an association list that is read with
  \<open>map_of\<close>. A Python \<open>str\<close> is modelled by its UTF-8 bytes; the fixed Chinese
  messages of the source are written out byte by byte. Floats are modelled by reals,
  with one extra value for \<open>inf\<close> and \<open>nan\<close>; rounding is left to the environment.
\<close>

datatype pyval =
    PNone
  | PBool bool
  | PInt int
  | PFloat real
  | PNonFinite
  | PStr string
  | PList "pyval list"
  | PDict "(string \<times> pyval) list"

text \<open>
  An exception is its class and the text \<open>str(e)\<close>. The class is the one that decides
  which \<open>except\<close> clause of this program catches it; everything that only the clause
  \<open>except Exception\<close> catches may be tagged \<open>OtherException\<close>. Only subclasses of
  \<open>Exception\<close> are modelled (a keyboard interrupt is not).
\<close>

datatype exn_class =
    RateLimitError | APITimeoutError | TypeError | KeyError | IndexError
  | AttributeError | ValueError | ImportError | RequestException | OtherException

datatype exn = Exn (exn_class: exn_class) (exn_str: string)

type_synonym pydict = "(string \<times> pyval) list"

text \<open>What the model endpoint sends back: \<open>response.choices[i].message\<close>.\<close>

record api_tool_call =
  call_id :: string
  call_type :: string
  call_name :: string
  call_arguments :: string

record message =
  msg_content :: "string option"
  msg_tool_calls :: "api_tool_call list option"

text \<open>The entries of \<open>conversation_history\<close>; a key that a dict lacks is \<open>None\<close>.\<close>

record function_dict =
  fd_name :: string
  fd_arguments :: string

record tool_call_dict =
  tc_id :: string
  tc_type :: string
  tc_function :: function_dict

record turn =
  role :: string
  content :: "string option"
  tool_calls :: "tool_call_dict list option"
  tool_call_id :: "string option"

text \<open>
  A request to \<open>client.chat.completions.create\<close>: the messages, the advertised tools
  (by name) and \<open>tool_choice\<close>; the model name, temperature and token limit are the same
  constants in both calls and are left out.
\<close>

record request =
  req_messages :: "turn list"
  req_tools :: "string list option"
  req_tool_choice :: "string option"

record http_response =
  raise_for_status :: "exn option"
  json_body :: "exn + pyval"

record bar =
  bar_close :: real
  bar_high :: real
  bar_low :: real
  bar_volume :: int

record mail =
  mail_from :: string
  mail_to :: pyval
  mail_subject :: pyval
  mail_content :: pyval

text \<open>
  The faults the interpreter itself raises in this program. Their texts differ between
  interpreter versions, so the environment supplies the text and the model the class.
\<close>

datatype fault =
    NotAMapping string pyval
  | UnexpectedKeyword string string
  | MissingArguments string "string list"
  | KeyMissing string
  | NotSubscriptable pyval
  | BadIndex pyval
  | IndexOutOfRange
  | NoAttribute pyval string
  | BadOperand string pyval
  | ResultTooLarge pyval

text \<open>
  Everything the program reaches outside itself: the model endpoint, the providers, the
  interpreter's library functions. The endpoint gets the number of requests already made
  in the session, since it need not answer the same request the same way twice.
  \<open>json.loads\<close> and \<open>json.dumps\<close> either return or raise an error of their own
  (\<open>JSONDecodeError\<close>, a \<open>ValueError\<close>; \<open>TypeError\<close> for a value that cannot be
  serialised), given here by its text.
\<close>

record env =
  create :: "nat \<Rightarrow> request \<Rightarrow> exn + message list"
  json_loads :: "string \<Rightarrow> string + pyval"
  json_dumps :: "pyval \<Rightarrow> string + string"
  fault_text :: "fault \<Rightarrow> string"
  getenv :: "string \<Rightarrow> string option"
  now :: string
  requests_get :: "string \<Rightarrow> pydict \<Rightarrow> exn + http_response"
  round_float :: "real \<Rightarrow> nat \<Rightarrow> real"
  format_value :: "pyval \<Rightarrow> string"
  import_yfinance :: "exn option"
  ticker_info :: "pyval \<Rightarrow> exn + pydict"
  ticker_history :: "pyval \<Rightarrow> pyval \<Rightarrow> exn + bar list"
  int_of_str :: "string \<Rightarrow> exn + int"
  smtp_session :: "string \<Rightarrow> int \<Rightarrow> string \<Rightarrow> string \<Rightarrow> mail \<Rightarrow> exn option"
  console_print :: "pyval \<Rightarrow> exn option"

text \<open>The outbound calls an adapter makes, in the order it makes them.\<close>

datatype effect =
    HttpGet string pydict
  | YfInfo pyval
  | YfHistory pyval pyval
  | SmtpSession string int string string mail
  | Printed pyval

subsection \<open>The fixed texts of the source\<close>

definition fallback_message :: string where
  "fallback_message =
     [CHR 0xE6, CHR 0x8A, CHR 0xB1, CHR 0xE6, CHR 0xAD, CHR 0x89, CHR 0xEF, CHR 0xBC,
      CHR 0x8C, CHR 0xE5, CHR 0x9C, CHR 0xA8, CHR 0xE5, CHR 0xA4, CHR 0x9A, CHR 0xE6,
      CHR 0xAC, CHR 0xA1, CHR 0xE5, CHR 0xB0, CHR 0x9D, CHR 0xE8, CHR 0xAF, CHR 0x95,
      CHR 0xE5, CHR 0x90, CHR 0x8E, CHR 0xE4, CHR 0xBB, CHR 0x8D, CHR 0xE6, CHR 0x97,
      CHR 0xA0, CHR 0xE6, CHR 0xB3, CHR 0x95, CHR 0xE5, CHR 0xAE, CHR 0x8C, CHR 0xE6,
      CHR 0x88, CHR 0x90, CHR 0xE6, CHR 0x82, CHR 0xA8, CHR 0xE7, CHR 0x9A, CHR 0x84,
      CHR 0xE8, CHR 0xAF, CHR 0xB7, CHR 0xE6, CHR 0xB1, CHR 0x82, CHR 0xEF, CHR 0xBC,
      CHR 0x8C, CHR 0xE8, CHR 0xAF, CHR 0xB7, CHR 0xE7, CHR 0xA8, CHR 0x8D, CHR 0xE5,
      CHR 0x90, CHR 0x8E, CHR 0xE5, CHR 0x86, CHR 0x8D, CHR 0xE8, CHR 0xAF, CHR 0x95,
      CHR 0xE3, CHR 0x80, CHR 0x82]"

definition apology_prefix :: string where
  "apology_prefix =
     [CHR 0xE6, CHR 0x8A, CHR 0xB1, CHR 0xE6, CHR 0xAD, CHR 0x89, CHR 0xEF, CHR 0xBC,
      CHR 0x8C, CHR 0xE6, CHR 0x88, CHR 0x91, CHR 0xE9, CHR 0x81, CHR 0x87, CHR 0xE5,
      CHR 0x88, CHR 0xB0, CHR 0xE4, CHR 0xBA, CHR 0x86, CHR 0xE6, CHR 0x8A, CHR 0x80,
      CHR 0xE6, CHR 0x9C, CHR 0xAF, CHR 0xE9, CHR 0x97, CHR 0xAE, CHR 0xE9, CHR 0xA2,
      CHR 0x98, CHR 0xEF, CHR 0xBC, CHR 0x9A]"

definition unknown_function_prefix :: string where
  "unknown_function_prefix =
     [CHR 0xE6, CHR 0x9C, CHR 0xAA, CHR 0xE7, CHR 0x9F, CHR 0xA5, CHR 0xE5, CHR 0x87,
      CHR 0xBD, CHR 0xE6, CHR 0x95, CHR 0xB0] @ '': ''"

definition argument_error_prefix :: string where
  "argument_error_prefix =
     [CHR 0xE5, CHR 0x87, CHR 0xBD, CHR 0xE6, CHR 0x95, CHR 0xB0, CHR 0xE5, CHR 0x8F,
      CHR 0x82, CHR 0xE6, CHR 0x95, CHR 0xB0, CHR 0xE9, CHR 0x94, CHR 0x99, CHR 0xE8,
      CHR 0xAF, CHR 0xAF] @ '': ''"

definition execution_error_prefix :: string where
  "execution_error_prefix =
     [CHR 0xE5, CHR 0x87, CHR 0xBD, CHR 0xE6, CHR 0x95, CHR 0xB0, CHR 0xE6, CHR 0x89,
      CHR 0xA7, CHR 0xE8, CHR 0xA1, CHR 0x8C, CHR 0xE5, CHR 0xBC, CHR 0x82, CHR 0xE5,
      CHR 0xB8, CHR 0xB8] @ '': ''"

definition network_error_prefix :: string where
  "network_error_prefix =
     [CHR 0xE7, CHR 0xBD, CHR 0x91, CHR 0xE7, CHR 0xBB, CHR 0x9C, CHR 0xE8, CHR 0xAF,
      CHR 0xB7, CHR 0xE6, CHR 0xB1, CHR 0x82, CHR 0xE5, CHR 0xA4, CHR 0xB1, CHR 0xE8,
      CHR 0xB4, CHR 0xA5] @ '': ''"

definition response_format_error_prefix :: string where
  "response_format_error_prefix =
     ''API'' @ [CHR 0xE5, CHR 0x93, CHR 0x8D, CHR 0xE5, CHR 0xBA, CHR 0x94, CHR 0xE6,
      CHR 0xA0, CHR 0xBC, CHR 0xE5, CHR 0xBC, CHR 0x8F, CHR 0xE9, CHR 0x94, CHR 0x99,
      CHR 0xE8, CHR 0xAF, CHR 0xAF] @ '': ''"

definition unknown_error_prefix :: string where
  "unknown_error_prefix =
     [CHR 0xE6, CHR 0x9C, CHR 0xAA, CHR 0xE7, CHR 0x9F, CHR 0xA5, CHR 0xE9, CHR 0x94,
      CHR 0x99, CHR 0xE8, CHR 0xAF, CHR 0xAF] @ '': ''"

definition unknown_text :: string where
  "unknown_text =
     [CHR 0xE6, CHR 0x9C, CHR 0xAA, CHR 0xE7, CHR 0x9F, CHR 0xA5]"

definition degrees_celsius :: string where
  "degrees_celsius =
     [CHR 0xC2, CHR 0xB0] @ ''C''"

definition degrees_fahrenheit :: string where
  "degrees_fahrenheit =
     [CHR 0xC2, CHR 0xB0] @ ''F''"

definition news_error_prefix :: string where
  "news_error_prefix =
     [CHR 0xE6, CHR 0x96, CHR 0xB0, CHR 0xE9, CHR 0x97, CHR 0xBB, CHR 0xE6, CHR 0x90,
      CHR 0x9C, CHR 0xE7, CHR 0xB4, CHR 0xA2, CHR 0xE5, CHR 0xA4, CHR 0xB1, CHR 0xE8,
      CHR 0xB4, CHR 0xA5] @ '': ''"

definition stock_not_found_prefix :: string where
  "stock_not_found_prefix =
     [CHR 0xE6, CHR 0x9C, CHR 0xAA, CHR 0xE6, CHR 0x89, CHR 0xBE, CHR 0xE5, CHR 0x88,
      CHR 0xB0, CHR 0xE8, CHR 0x82, CHR 0xA1, CHR 0xE7, CHR 0xA5, CHR 0xA8, CHR 0xE4,
      CHR 0xBB, CHR 0xA3, CHR 0xE7, CHR 0xA0, CHR 0x81] @ '' ''"

definition stock_not_found_suffix :: string where
  "stock_not_found_suffix =
     '' '' @ [CHR 0xE7, CHR 0x9A, CHR 0x84, CHR 0xE6, CHR 0x95, CHR 0xB0, CHR 0xE6,
      CHR 0x8D, CHR 0xAE]"

definition yfinance_missing_message :: string where
  "yfinance_missing_message =
     [CHR 0xE9, CHR 0x9C, CHR 0x80, CHR 0xE8, CHR 0xA6, CHR 0x81, CHR 0xE5, CHR 0xAE,
      CHR 0x89, CHR 0xE8, CHR 0xA3, CHR 0x85] @ ''yfinance'' @ [CHR 0xE5, CHR 0xBA,
      CHR 0x93, CHR 0xEF, CHR 0xBC, CHR 0x9A] @ ''pip install yfinance''"

definition stock_error_prefix :: string where
  "stock_error_prefix =
     [CHR 0xE8, CHR 0x82, CHR 0xA1, CHR 0xE7, CHR 0xA5, CHR 0xA8, CHR 0xE5, CHR 0x88,
      CHR 0x86, CHR 0xE6, CHR 0x9E, CHR 0x90, CHR 0xE5, CHR 0xA4, CHR 0xB1, CHR 0xE8,
      CHR 0xB4, CHR 0xA5] @ '': ''"

definition email_sent_message :: string where
  "email_sent_message =
     [CHR 0xE9, CHR 0x82, CHR 0xAE, CHR 0xE4, CHR 0xBB, CHR 0xB6, CHR 0xE5, CHR 0x8F,
      CHR 0x91, CHR 0xE9, CHR 0x80, CHR 0x81, CHR 0xE6, CHR 0x88, CHR 0x90, CHR 0xE5,
      CHR 0x8A, CHR 0x9F]"

definition email_error_prefix :: string where
  "email_error_prefix =
     [CHR 0xE9, CHR 0x82, CHR 0xAE, CHR 0xE4, CHR 0xBB, CHR 0xB6, CHR 0xE5, CHR 0x8F,
      CHR 0x91, CHR 0xE9, CHR 0x80, CHR 0x81, CHR 0xE5, CHR 0xA4, CHR 0xB1, CHR 0xE8,
      CHR 0xB4, CHR 0xA5] @ '': ''"

definition weixin_sent_message :: string where
  "weixin_sent_message =
     [CHR 0xE4, CHR 0xBF, CHR 0xA1, CHR 0xE6, CHR 0x81, CHR 0xAF, CHR 0xE5, CHR 0x8F,
      CHR 0x91, CHR 0xE9, CHR 0x80, CHR 0x81, CHR 0xE6, CHR 0x88, CHR 0x90, CHR 0xE5,
      CHR 0x8A, CHR 0x9F]"

definition weixin_error_prefix :: string where
  "weixin_error_prefix =
     [CHR 0xE4, CHR 0xBF, CHR 0xA1, CHR 0xE6, CHR 0x81, CHR 0xAF, CHR 0xE5, CHR 0x8F,
      CHR 0x91, CHR 0xE9, CHR 0x80, CHR 0x81, CHR 0xE5, CHR 0xA4, CHR 0xB1, CHR 0xE8,
      CHR 0xB4, CHR 0xA5] @ '': ''"


subsection \<open>Python operations on values\<close>

definition bindE :: "exn + 'a \<Rightarrow> ('a \<Rightarrow> exn + 'b) \<Rightarrow> exn + 'b" where
  "bindE m f = (case m of Inl e \<Rightarrow> Inl e | Inr x \<Rightarrow> f x)"

definition raise_fault :: "env \<Rightarrow> exn_class \<Rightarrow> fault \<Rightarrow> exn + 'a" where
  "raise_fault env c f = Inl (Exn c (fault_text env f))"

fun truthy :: "pyval \<Rightarrow> bool" where
  "truthy PNone = False"
| "truthy (PBool b) = b"
| "truthy (PInt i) = (i \<noteq> 0)"
| "truthy (PFloat x) = (x \<noteq> 0)"
| "truthy PNonFinite = True"
| "truthy (PStr s) = (s \<noteq> [])"
| "truthy (PList xs) = (xs \<noteq> [])"
| "truthy (PDict kvs) = (kvs \<noteq> [])"

text \<open>\<open>obj[key]\<close> with a string key.\<close>

fun getitem_str :: "env \<Rightarrow> pyval \<Rightarrow> string \<Rightarrow> exn + pyval" where
  "getitem_str env (PDict kvs) k =
     (case map_of kvs k of Some v \<Rightarrow> Inr v | None \<Rightarrow> raise_fault env KeyError (KeyMissing k))"
| "getitem_str env (PList xs) k = raise_fault env TypeError (BadIndex (PList xs))"
| "getitem_str env (PStr s) k = raise_fault env TypeError (BadIndex (PStr s))"
| "getitem_str env v k = raise_fault env TypeError (NotSubscriptable v)"

definition utf8_width :: "char \<Rightarrow> nat" where
  "utf8_width c =
     (let n = (of_char c :: nat)
      in if n < 0x80 then 1 else if n < 0xE0 then 2 else if n < 0xF0 then 3 else 4)"

fun code_points :: "string \<Rightarrow> string list" where
  "code_points [] = []"
| "code_points (c # cs) =
     (c # take (utf8_width c - 1) cs) # code_points (drop (utf8_width c - 1) cs)"

text \<open>\<open>obj[0]\<close>.\<close>

fun getitem_0 :: "env \<Rightarrow> pyval \<Rightarrow> exn + pyval" where
  "getitem_0 env (PList xs) =
     (case xs of [] \<Rightarrow> raise_fault env IndexError IndexOutOfRange | x # _ \<Rightarrow> Inr x)"
| "getitem_0 env (PStr s) =
     (case code_points s of [] \<Rightarrow> raise_fault env IndexError IndexOutOfRange
      | c # _ \<Rightarrow> Inr (PStr c))"
| "getitem_0 env (PDict kvs) = raise_fault env KeyError (KeyMissing ''0'')"
| "getitem_0 env v = raise_fault env TypeError (NotSubscriptable v)"

text \<open>\<open>obj.get(key, default)\<close>: only a dict has the method.\<close>

fun dict_get :: "env \<Rightarrow> pyval \<Rightarrow> string \<Rightarrow> pyval \<Rightarrow> exn + pyval" where
  "dict_get env (PDict kvs) k d = (case map_of kvs k of Some v \<Rightarrow> Inr v | None \<Rightarrow> Inr d)"
| "dict_get env v k d = raise_fault env AttributeError (NoAttribute v ''get'')"

text \<open>\<open>round(x, n)\<close> for \<open>n > 0\<close>.\<close>

fun py_round :: "env \<Rightarrow> pyval \<Rightarrow> nat \<Rightarrow> exn + pyval" where
  "py_round env (PInt i) n = Inr (PInt i)"
| "py_round env (PBool b) n = Inr (PInt (if b then 1 else 0))"
| "py_round env (PFloat x) n = Inr (PFloat (round_float env x n))"
| "py_round env PNonFinite n = Inr PNonFinite"
| "py_round env v n = raise_fault env TypeError (BadOperand ''round'' v)"

text \<open>
  \<open>x / 1000\<close>. The quotient of an int is a float: when it is so large that it rounds
  beyond the largest float, the division raises \<open>OverflowError\<close>, which only
  \<open>except Exception\<close> catches.
\<close>

definition float_overflow_limit :: real where
  "float_overflow_limit = 2 ^ 1024 - 2 ^ 970"

fun div_1000 :: "env \<Rightarrow> pyval \<Rightarrow> exn + pyval" where
  "div_1000 env (PInt i) =
     (if float_overflow_limit \<le> \<bar>real_of_int i / 1000\<bar>
      then raise_fault env OtherException (ResultTooLarge (PInt i))
      else Inr (PFloat (real_of_int i / 1000)))"
| "div_1000 env (PBool b) = Inr (PFloat ((if b then 1 else 0) / 1000))"
| "div_1000 env (PFloat x) = Inr (PFloat (x / 1000))"
| "div_1000 env PNonFinite = Inr PNonFinite"
| "div_1000 env v = raise_fault env TypeError (BadOperand ''/'' v)"

text \<open>\<open>obj[:5]\<close>, as the sequence the \<open>for\<close> loop then walks.\<close>

fun slice_5 :: "env \<Rightarrow> pyval \<Rightarrow> exn + pyval list" where
  "slice_5 env (PList xs) = Inr (take 5 xs)"
| "slice_5 env (PStr s) = Inr (map PStr (take 5 (code_points s)))"
| "slice_5 env v = raise_fault env TypeError (NotSubscriptable v)"

text \<open>\<open>os.getenv(name, default)\<close> and the value an f-string gives a field.\<close>

definition getenv_default :: "env \<Rightarrow> string \<Rightarrow> string \<Rightarrow> string" where
  "getenv_default env name d = (case getenv env name of Some v \<Rightarrow> v | None \<Rightarrow> d)"

definition fstring :: "env \<Rightarrow> pyval \<Rightarrow> string" where
  "fstring env v = (case v of PStr s \<Rightarrow> s | _ \<Rightarrow> format_value env v)"

section \<open>The tool adapters\<close>

text \<open>
  Every adapter returns the result envelope, a dict, together with the outbound calls it
  made. \<open>success\<close> and \<open>failure\<close> are the two dict literals the source returns.
\<close>

definition success :: "pyval \<Rightarrow> pydict" where
  "success d = [(''success'', PBool True), (''data'', d)]"

definition failure :: "string \<Rightarrow> pydict" where
  "failure msg = [(''success'', PBool False), (''error'', PStr msg)]"

subsection \<open>get_real_weather\<close>

definition weather_info :: "env \<Rightarrow> pyval \<Rightarrow> pyval \<Rightarrow> exn + pyval" where
  "weather_info env units data =
     bindE (getitem_str env data ''name'') (\<lambda>city.
     bindE (bindE (getitem_str env data ''sys'') (\<lambda>s. getitem_str env s ''country'')) (\<lambda>country.
     bindE (bindE (bindE (getitem_str env data ''main'') (\<lambda>m. getitem_str env m ''temp''))
              (\<lambda>t. py_round env t 1)) (\<lambda>temperature.
     bindE (bindE (bindE (getitem_str env data ''main'') (\<lambda>m. getitem_str env m ''feels_like''))
              (\<lambda>t. py_round env t 1)) (\<lambda>feels_like.
     bindE (bindE (getitem_str env data ''main'') (\<lambda>m. getitem_str env m ''humidity'')) (\<lambda>humidity.
     bindE (bindE (getitem_str env data ''main'') (\<lambda>m. getitem_str env m ''pressure'')) (\<lambda>pressure.
     bindE (bindE (bindE (getitem_str env data ''weather'') (getitem_0 env))
              (\<lambda>w. getitem_str env w ''description'')) (\<lambda>description.
     bindE (bindE (getitem_str env data ''wind'') (\<lambda>w. getitem_str env w ''speed'')) (\<lambda>wind_speed.
     bindE (bindE (dict_get env data ''visibility'' PNone) (\<lambda>c.
              if truthy c
              then bindE (dict_get env data ''visibility'' (PStr unknown_text)) (div_1000 env)
              else Inr (PStr unknown_text))) (\<lambda>visibility.
     Inr (PDict
       [(''city'', city), (''country'', country), (''temperature'', temperature),
        (''feels_like'', feels_like), (''humidity'', humidity), (''pressure'', pressure),
        (''description'', description), (''wind_speed'', wind_speed),
        (''visibility'', visibility),
        (''units'', PStr (if units = PStr ''metric'' then degrees_celsius
                          else degrees_fahrenheit)),
        (''timestamp'', PStr (now env))]))))))))))"

definition weather_url :: string where
  "weather_url = ''http://api.openweathermap.org/data/2.5/weather''"

definition weather_params :: "env \<Rightarrow> pyval \<Rightarrow> pyval \<Rightarrow> pydict" where
  "weather_params env city units =
     [(''q'', city),
      (''appid'', PStr (getenv_default env ''OPENWEATHER_API_KEY'' ''your_openweather_api_key'')),
      (''units'', units), (''lang'', PStr ''zh_cn'')]"

definition fetch_json :: "env \<Rightarrow> string \<Rightarrow> pydict \<Rightarrow> exn + pyval" where
  "fetch_json env url params =
     bindE (requests_get env url params) (\<lambda>response.
       case raise_for_status response of Some e \<Rightarrow> Inl e | None \<Rightarrow> json_body response)"

definition get_real_weather :: "env \<Rightarrow> pyval \<Rightarrow> pyval \<Rightarrow> pydict \<times> effect list" where
  "get_real_weather env city units =
     (let params = weather_params env city units
      in (case bindE (fetch_json env weather_url params) (weather_info env units) of
            Inr info \<Rightarrow> success info
          | Inl e \<Rightarrow>
              if exn_class e = RequestException
              then failure (network_error_prefix @ exn_str e)
              else if exn_class e = KeyError
              then failure (response_format_error_prefix @ exn_str e)
              else failure (unknown_error_prefix @ exn_str e),
          [HttpGet weather_url params]))"

subsection \<open>search_news\<close>

definition news_article :: "env \<Rightarrow> pyval \<Rightarrow> exn + pyval" where
  "news_article env article =
     bindE (getitem_str env article ''title'') (\<lambda>title.
     bindE (getitem_str env article ''description'') (\<lambda>description.
     bindE (getitem_str env article ''url'') (\<lambda>url.
     bindE (bindE (getitem_str env article ''source'') (\<lambda>s. getitem_str env s ''name'')) (\<lambda>source.
     bindE (getitem_str env article ''publishedAt'') (\<lambda>published_at.
     Inr (PDict [(''title'', title), (''description'', description), (''url'', url),
                 (''source'', source), (''published_at'', published_at)]))))))"

fun collect_articles :: "env \<Rightarrow> pyval list \<Rightarrow> exn + pyval list" where
  "collect_articles env [] = Inr []"
| "collect_articles env (a # as) =
     bindE (news_article env a) (\<lambda>d.
     bindE (collect_articles env as) (\<lambda>ds. Inr (d # ds)))"

definition news_url :: string where
  "news_url = ''https://newsapi.org/v2/everything''"

definition news_params :: "env \<Rightarrow> pyval \<Rightarrow> pyval \<Rightarrow> pydict" where
  "news_params env query country =
     [(''q'', query),
      (''apiKey'', PStr (getenv_default env ''NEWS_API_KEY'' ''your_news_api_key'')),
      (''language'', PStr (if country = PStr ''cn'' then ''zh'' else ''en'')),
      (''sortBy'', PStr ''publishedAt''), (''pageSize'', PInt 5)]"

definition news_data :: "env \<Rightarrow> pyval \<Rightarrow> pyval \<Rightarrow> exn + pyval" where
  "news_data env query data =
     bindE (bindE (bindE (dict_get env data ''articles'' (PList [])) (slice_5 env))
              (collect_articles env)) (\<lambda>articles.
     bindE (dict_get env data ''totalResults'' (PInt 0)) (\<lambda>total.
     Inr (PDict [(''query'', query), (''total_results'', total),
                 (''articles'', PList articles), (''timestamp'', PStr (now env))])))"

definition search_news :: "env \<Rightarrow> pyval \<Rightarrow> pyval \<Rightarrow> pyval \<Rightarrow> pydict \<times> effect list" where
  "search_news env query category country =
     (let params = news_params env query country
      in (case bindE (fetch_json env news_url params) (news_data env query) of
            Inr d \<Rightarrow> success d
          | Inl e \<Rightarrow> failure (news_error_prefix @ exn_str e),
          [HttpGet news_url params]))"

subsection \<open>analyze_stock\<close>

text \<open>
  \<open>hist\<close> is the frame of price bars, oldest first; \<open>iloc[-1]\<close> is its last row and
  \<open>iloc[-2]\<close> the row before, which a frame of one row does not have. Dividing by a
  prior close of zero gives \<open>inf\<close> or \<open>nan\<close> and no exception. The prices of a
  bar are finite reals: a frame with \<open>nan\<close> prices, and a difference or quotient that
  overflows the float range, are not represented.
\<close>

definition stock_analysis ::
    "env \<Rightarrow> pyval \<Rightarrow> pyval \<Rightarrow> pydict \<Rightarrow> bar list \<Rightarrow> exn + pyval" where
  "stock_analysis env symbol period info hist =
     (let current_price = bar_close (last hist)
      in if length hist < 2 then raise_fault env IndexError IndexOutOfRange
         else
           let previous = bar_close (hist ! (length hist - 2));
               price_change = current_price - previous
           in Inr (PDict
             [(''symbol'', symbol),
              (''company_name'',
                 (case map_of info ''longName'' of Some v \<Rightarrow> v | None \<Rightarrow> symbol)),
              (''current_price'', PFloat (round_float env current_price 2)),
              (''price_change'', PFloat (round_float env price_change 2)),
              (''price_change_percent'',
                 (if previous = 0 then PNonFinite
                  else PFloat (round_float env (price_change / previous * 100) 2))),
              (''volume'', PInt (bar_volume (last hist))),
              (''market_cap'',
                 (case map_of info ''marketCap'' of Some v \<Rightarrow> v | None \<Rightarrow> PNone)),
              (''pe_ratio'',
                 (case map_of info ''trailingPE'' of Some v \<Rightarrow> v | None \<Rightarrow> PNone)),
              (''52_week_high'', PFloat (round_float env (Max (set (map bar_high hist))) 2)),
              (''52_week_low'', PFloat (round_float env (Min (set (map bar_low hist))) 2)),
              (''analysis_period'', period),
              (''timestamp'', PStr (now env))]))"

definition stock_except :: "exn \<Rightarrow> pydict" where
  "stock_except e =
     (if exn_class e = ImportError then failure yfinance_missing_message
      else failure (stock_error_prefix @ exn_str e))"

definition analyze_stock :: "env \<Rightarrow> pyval \<Rightarrow> pyval \<Rightarrow> pydict \<times> effect list" where
  "analyze_stock env symbol period =
     (case import_yfinance env of
        Some e \<Rightarrow> (stock_except e, [])
      | None \<Rightarrow>
         (case ticker_info env symbol of
            Inl e \<Rightarrow> (stock_except e, [YfInfo symbol])
          | Inr info \<Rightarrow>
             (case ticker_history env symbol period of
                Inl e \<Rightarrow> (stock_except e, [YfInfo symbol, YfHistory symbol period])
              | Inr hist \<Rightarrow>
                 (if hist = []
                  then failure (stock_not_found_prefix @ fstring env symbol
                                  @ stock_not_found_suffix)
                  else (case stock_analysis env symbol period info hist of
                          Inl e \<Rightarrow> stock_except e
                        | Inr analysis_result \<Rightarrow> success analysis_result),
                  [YfInfo symbol, YfHistory symbol period]))))"

subsection \<open>send_email\<close>

text \<open>
  \<open>smtp_session\<close> stands for building the MIME message and the whole
  \<open>with smtplib.SMTP(...)\<close> block: \<open>None\<close> when the message was handed over.
\<close>

definition send_email :: "env \<Rightarrow> pyval \<Rightarrow> pyval \<Rightarrow> pyval \<Rightarrow> pydict \<times> effect list" where
  "send_email env to subject body =
     (let smtp_server = getenv_default env ''SMTP_SERVER'' ''smtp.gmail.com''
      in case int_of_str env (getenv_default env ''SMTP_PORT'' ''587'') of
           Inl e \<Rightarrow> (failure (email_error_prefix @ exn_str e), [])
         | Inr smtp_port \<Rightarrow>
            (let sender_email = getenv_default env ''SENDER_EMAIL'' ''your_email@gmail.com'';
                 sender_password = getenv_default env ''SENDER_PASSWORD'' ''your_app_password'';
                 m = \<lparr>mail_from = sender_email, mail_to = to, mail_subject = subject,
                      mail_content = body\<rparr>
             in (case smtp_session env smtp_server smtp_port sender_email sender_password m of
                   Some e \<Rightarrow> failure (email_error_prefix @ exn_str e)
                 | None \<Rightarrow>
                     success (PDict [(''to'', to), (''subject'', subject),
                                     (''sent_at'', PStr (now env)),
                                     (''message'', PStr email_sent_message)]),
                 [SmtpSession smtp_server smtp_port sender_email sender_password m])))"

subsection \<open>send_message_with_weixin\<close>

text \<open>The stand-in transport: the content is printed between two rules of stars.\<close>

definition send_message_with_weixin ::
    "env \<Rightarrow> pyval \<Rightarrow> pyval \<Rightarrow> pydict \<times> effect list" where
  "send_message_with_weixin env user_name body =
     (case console_print env body of
        Some e \<Rightarrow> failure (weixin_error_prefix @ exn_str e)
      | None \<Rightarrow>
          success (PDict [(''user_name'', user_name), (''sent_at'', PStr (now env)),
                          (''message'', PStr weixin_sent_message)]),
      [Printed body])"

section \<open>The dispatcher\<close>

text \<open>
  Calling \<open>function_map[function_name]\<close> with \<open>**arguments\<close> binds the keys of
  \<open>arguments\<close> to the parameters of the method. A key that is no parameter is refused first, then a parameter
  without default that has no key; \<open>**\<close> on a value that is no dict is refused too. All
  three raise \<open>TypeError\<close>. The values themselves are not checked.
\<close>

definition bind_arguments ::
    "env \<Rightarrow> string \<Rightarrow> (string \<times> pyval option) list \<Rightarrow> pyval \<Rightarrow> exn + pyval list" where
  "bind_arguments env f params arguments =
     (case arguments of
        PDict kvs \<Rightarrow>
          (case filter (\<lambda>k. k \<notin> set (map fst params)) (map fst kvs) of
             k # _ \<Rightarrow> raise_fault env TypeError (UnexpectedKeyword f k)
           | [] \<Rightarrow>
              (case filter (\<lambda>p. map_of params p = Some None \<and> map_of kvs p = None)
                      (map fst params) of
                 p # ps \<Rightarrow> raise_fault env TypeError (MissingArguments f (p # ps))
               | [] \<Rightarrow>
                   Inr (map (\<lambda>(p, d). case map_of kvs p of
                                        Some v \<Rightarrow> v
                                      | None \<Rightarrow> (case d of Some v \<Rightarrow> v | None \<Rightarrow> PNone))
                          params)))
      | _ \<Rightarrow> raise_fault env TypeError (NotAMapping f arguments))"

type_synonym callable = "pyval \<Rightarrow> (exn + pydict) \<times> effect list"

definition bound_method ::
    "env \<Rightarrow> string \<Rightarrow> (string \<times> pyval option) list
       \<Rightarrow> (pyval list \<Rightarrow> pydict \<times> effect list) \<Rightarrow> callable" where
  "bound_method env f params body arguments =
     (case bind_arguments env f params arguments of
        Inl e \<Rightarrow> (Inl e, [])
      | Inr vs \<Rightarrow> (case body vs of (result, fx) \<Rightarrow> (Inr result, fx)))"

definition function_map :: "env \<Rightarrow> (string \<times> callable) list" where
  "function_map env =
     [(''get_real_weather'',
         bound_method env ''get_real_weather''
           [(''city'', None), (''units'', Some (PStr ''metric''))]
           (\<lambda>vs. get_real_weather env (vs ! 0) (vs ! 1))),
      (''search_news'',
         bound_method env ''search_news''
           [(''query'', None), (''category'', Some (PStr ''general'')),
            (''country'', Some (PStr ''cn''))]
           (\<lambda>vs. search_news env (vs ! 0) (vs ! 1) (vs ! 2))),
      (''analyze_stock'',
         bound_method env ''analyze_stock''
           [(''symbol'', None), (''period'', Some (PStr ''1mo''))]
           (\<lambda>vs. analyze_stock env (vs ! 0) (vs ! 1))),
      (''send_email'',
         bound_method env ''send_email''
           [(''to'', None), (''subject'', None), (''content'', None)]
           (\<lambda>vs. send_email env (vs ! 0) (vs ! 1) (vs ! 2))),
      (''send_message_with_weixin'',
         bound_method env ''send_message_with_weixin''
           [(''user_name'', None), (''content'', None)]
           (\<lambda>vs. send_message_with_weixin env (vs ! 0) (vs ! 1)))]"

text \<open>
  \<open>execute_function_call\<close>, first over any table of callables, so that each
  \<open>except\<close> clause can be reached, then over the table of the source.
\<close>

definition execute_function_call_with ::
    "(string \<times> callable) list \<Rightarrow> string \<Rightarrow> pyval \<Rightarrow> pydict \<times> effect list" where
  "execute_function_call_with fm function_name arguments =
     (case map_of fm function_name of
        None \<Rightarrow> (failure (unknown_function_prefix @ function_name), [])
      | Some f \<Rightarrow>
         (case f arguments of
            (Inr result, fx) \<Rightarrow> (result, fx)
          | (Inl e, fx) \<Rightarrow>
              (if exn_class e = TypeError
               then failure (argument_error_prefix @ exn_str e)
               else failure (execution_error_prefix @ exn_str e), fx)))"

definition execute_function_call :: "env \<Rightarrow> string \<Rightarrow> pyval \<Rightarrow> pydict \<times> effect list" where
  "execute_function_call env = execute_function_call_with (function_map env)"

section \<open>The orchestration loop\<close>

text \<open>
  The state of one assistant object, with the traces the claims speak about: the
  requests sent to the model endpoint with their outcomes, the arguments of
  \<open>time.sleep\<close>, and the outbound calls of the adapters.
\<close>

record session =
  conversation_history :: "turn list"
  api_log :: "(request \<times> (exn + message list)) list"
  sleeps :: "nat list"
  effects :: "effect list"

definition tools :: "string list" where
  "tools = [''get_real_weather'', ''search_news'', ''analyze_stock'', ''send_email'',
            ''send_message_with_weixin'']"

definition tools_request :: "session \<Rightarrow> request" where
  "tools_request s =
     \<lparr>req_messages = conversation_history s, req_tools = Some tools,
      req_tool_choice = Some ''auto''\<rparr>"

definition final_request :: "session \<Rightarrow> request" where
  "final_request s =
     \<lparr>req_messages = conversation_history s, req_tools = None, req_tool_choice = None\<rparr>"

definition call_model :: "env \<Rightarrow> request \<Rightarrow> session \<Rightarrow> (exn + message list) \<times> session" where
  "call_model env req s =
     (let outcome = create env (length (api_log s)) req
      in (outcome, s\<lparr>api_log := api_log s @ [(req, outcome)]\<rparr>))"

definition append_turn :: "turn \<Rightarrow> session \<Rightarrow> session" where
  "append_turn t s = s\<lparr>conversation_history := conversation_history s @ [t]\<rparr>"

definition user_turn :: "string \<Rightarrow> turn" where
  "user_turn user_message =
     \<lparr>role = ''user'', content = Some user_message, tool_calls = None, tool_call_id = None\<rparr>"

definition assistant_turn :: "string option \<Rightarrow> turn" where
  "assistant_turn final_message =
     \<lparr>role = ''assistant'', content = final_message, tool_calls = None, tool_call_id = None\<rparr>"

definition tool_call_entry :: "api_tool_call \<Rightarrow> tool_call_dict" where
  "tool_call_entry tool_call =
     \<lparr>tc_id = call_id tool_call, tc_type = call_type tool_call,
      tc_function = \<lparr>fd_name = call_name tool_call,
                      fd_arguments = call_arguments tool_call\<rparr>\<rparr>"

definition assistant_tool_turn :: "message \<Rightarrow> api_tool_call list \<Rightarrow> turn" where
  "assistant_tool_turn assistant_message tcs =
     \<lparr>role = ''assistant'', content = msg_content assistant_message,
      tool_calls = Some (map tool_call_entry tcs), tool_call_id = None\<rparr>"

definition tool_turn :: "string \<Rightarrow> api_tool_call \<Rightarrow> turn" where
  "tool_turn text tool_call =
     \<lparr>role = ''tool'', content = Some text, tool_calls = None,
      tool_call_id = Some (call_id tool_call)\<rparr>"

text \<open>The \<open>for\<close> loop over the requested calls; \<open>Some e\<close> when an exception left it.\<close>

fun run_tools :: "env \<Rightarrow> api_tool_call list \<Rightarrow> session \<Rightarrow> exn option \<times> session" where
  "run_tools env [] s = (None, s)"
| "run_tools env (tool_call # rest) s =
     (case json_loads env (call_arguments tool_call) of
        Inl text \<Rightarrow> (Some (Exn ValueError text), s)
      | Inr function_args \<Rightarrow>
         (case execute_function_call env (call_name tool_call) function_args of
            (function_result, fx) \<Rightarrow>
              (case json_dumps env (PDict function_result) of
                 Inl text \<Rightarrow> (Some (Exn TypeError text), s\<lparr>effects := effects s @ fx\<rparr>)
               | Inr text \<Rightarrow>
                   run_tools env rest
                     (append_turn (tool_turn text tool_call)
                        (s\<lparr>effects := effects s @ fx\<rparr>)))))"

text \<open>\<open>response.choices[0].message\<close>.\<close>

definition first_choice :: "env \<Rightarrow> message list \<Rightarrow> exn + message" where
  "first_choice env choices =
     (case choices of [] \<Rightarrow> raise_fault env IndexError IndexOutOfRange | m # _ \<Rightarrow> Inr m)"

text \<open>The second round: the model answers from the tool results, no tools offered.\<close>

definition final_answer :: "env \<Rightarrow> session \<Rightarrow> (exn + string option) \<times> session" where
  "final_answer env s =
     (case call_model env (final_request s) s of
        (Inl e, s1) \<Rightarrow> (Inl e, s1)
      | (Inr choices, s1) \<Rightarrow>
         (case first_choice env choices of
            Inl e \<Rightarrow> (Inl e, s1)
          | Inr m \<Rightarrow> (Inr (msg_content m), append_turn (assistant_turn (msg_content m)) s1)))"

text \<open>The body of the \<open>try\<close>: what it returns, or the exception that left it.\<close>

definition attempt :: "env \<Rightarrow> session \<Rightarrow> (exn + string option) \<times> session" where
  "attempt env s =
     (case call_model env (tools_request s) s of
        (Inl e, s1) \<Rightarrow> (Inl e, s1)
      | (Inr choices, s1) \<Rightarrow>
         (case first_choice env choices of
            Inl e \<Rightarrow> (Inl e, s1)
          | Inr assistant_message \<Rightarrow>
             (case msg_tool_calls assistant_message of
                Some (tc # tcs) \<Rightarrow>
                  (case run_tools env (tc # tcs)
                          (append_turn (assistant_tool_turn assistant_message (tc # tcs)) s1) of
                     (Some e, s2) \<Rightarrow> (Inl e, s2)
                   | (None, s2) \<Rightarrow> final_answer env s2)
              | _ \<Rightarrow>
                  (Inr (msg_content assistant_message),
                   append_turn (assistant_turn (msg_content assistant_message)) s1))))"

text \<open>The \<open>while\<close> loop with its three \<open>except\<close> clauses.\<close>

function chat_loop ::
    "env \<Rightarrow> int \<Rightarrow> nat \<Rightarrow> session \<Rightarrow> string option \<times> session" where
  "chat_loop env max_retries retry_count s =
     (if int retry_count < max_retries
      then (case attempt env s of
              (Inr final_message, s1) \<Rightarrow> (final_message, s1)
            | (Inl e, s1) \<Rightarrow>
                if exn_class e = RateLimitError
                then chat_loop env max_retries (retry_count + 1)
                       (s1\<lparr>sleeps := sleeps s1 @ [2 ^ (retry_count + 1)]\<rparr>)
                else if exn_class e = APITimeoutError
                then chat_loop env max_retries (retry_count + 1) s1
                else (Some (apology_prefix @ exn_str e), s1))
      else (Some fallback_message, s))"
  by pat_completeness auto
termination
  by (relation "measure (\<lambda>(env, max_retries, retry_count, s). nat (max_retries - int retry_count))")
     auto

definition chat_with_function_calling ::
    "env \<Rightarrow> string \<Rightarrow> int \<Rightarrow> session \<Rightarrow> string option \<times> session" where
  "chat_with_function_calling env user_message max_retries s =
     chat_loop env max_retries 0 (append_turn (user_turn user_message) s)"

declare chat_loop.simps [simp del]

section \<open>A small world to run the program in\<close>

text \<open>
  A concrete environment: the endpoint is given as a parameter, the JSON functions know
  three payloads, every provider answers (the weather provider with clear weather in
  Paris), and the price history of \<open>AAPL\<close> over one day has a single bar.
\<close>

definition stub_loads :: "string \<Rightarrow> string + pyval" where
  "stub_loads text =
     (if text = ''paris'' then Inr (PDict [(''city'', PStr ''Paris'')])
      else if text = ''mail'' then
        Inr (PDict [(''to'', PStr ''a@b.c''), (''subject'', PStr ''hi''), (''content'', PStr ''yo'')])
      else if text = ''none'' then Inr (PDict [])
      else Inl ''Expecting value'')"

definition stub_history :: "pyval \<Rightarrow> pyval \<Rightarrow> exn + bar list" where
  "stub_history symbol period =
     (if symbol = PStr ''AAPL'' \<and> period = PStr ''1d''
      then Inr [\<lparr>bar_close = 190, bar_high = 191, bar_low = 189, bar_volume = 1000\<rparr>]
      else if symbol = PStr ''AAPL''
      then Inr [\<lparr>bar_close = 100, bar_high = 120, bar_low = 90, bar_volume = 500\<rparr>,
                \<lparr>bar_close = 110, bar_high = 115, bar_low = 95, bar_volume = 700\<rparr>]
      else Inr [])"

definition stub_weather :: pyval where
  "stub_weather =
     PDict [(''name'', PStr ''Paris''), (''sys'', PDict [(''country'', PStr ''FR'')]),
            (''main'', PDict [(''temp'', PInt 18), (''feels_like'', PInt 17),
                              (''humidity'', PInt 60), (''pressure'', PInt 1012)]),
            (''weather'', PList [PDict [(''description'', PStr ''clear'')]]),
            (''wind'', PDict [(''speed'', PInt 3)]), (''visibility'', PInt 10000)]"

definition stub_env :: "(nat \<Rightarrow> request \<Rightarrow> exn + message list) \<Rightarrow> env" where
  "stub_env endpoint =
     \<lparr>create = endpoint,
      json_loads = stub_loads,
      json_dumps = (\<lambda>v. Inr ''result''),
      fault_text = (\<lambda>f. ''fault''),
      getenv = (\<lambda>name. None),
      now = ''2024-01-01 00:00:00'',
      requests_get = (\<lambda>url params.
         Inr \<lparr>raise_for_status = None,
              json_body = Inr (if url = weather_url then stub_weather
                               else PDict [(''articles'', PList [])])\<rparr>),
      round_float = (\<lambda>x n. x),
      format_value = (\<lambda>v. ''value''),
      import_yfinance = None,
      ticker_info = (\<lambda>symbol. Inr []),
      ticker_history = stub_history,
      int_of_str = (\<lambda>text. Inr 587),
      smtp_session = (\<lambda>server port sender password m. None),
      console_print = (\<lambda>v. None)\<rparr>"

definition always_raises :: "exn \<Rightarrow> nat \<Rightarrow> request \<Rightarrow> exn + message list" where
  "always_raises e i req = Inl e"

definition empty_session :: session where
  "empty_session = \<lparr>conversation_history = [], api_log = [], sleeps = [], effects = []\<rparr>"

text \<open>An environment whose model endpoint is down, and the weather method bound in it.\<close>

definition quiet_env :: env where
  "quiet_env = stub_env (always_raises (Exn OtherException ''down''))"




text \<open>The tool turns of a batch, and the entries of an assistant turn that a tool turn's
  id points at.\<close>

definition tool_turns :: "string list \<Rightarrow> api_tool_call list \<Rightarrow> turn list" where
  "tool_turns texts tcs = map (\<lambda>(text, tc). tool_turn text tc) (zip texts tcs)"

definition matching_entries :: "turn \<Rightarrow> tool_call_dict list \<Rightarrow> tool_call_dict list" where
  "matching_entries t entries = filter (\<lambda>entry. tool_call_id t = Some (tc_id entry)) entries"

text \<open>What dispatching one requested call appends as the content of its tool turn, when
  both JSON steps succeed, and the outbound calls it makes.\<close>

definition call_text :: "env \<Rightarrow> api_tool_call \<Rightarrow> string option" where
  "call_text env tool_call =
     (case json_loads env (call_arguments tool_call) of
        Inl err \<Rightarrow> None
      | Inr function_args \<Rightarrow>
         (case json_dumps env
                 (PDict (fst (execute_function_call env (call_name tool_call) function_args))) of
            Inl err \<Rightarrow> None
          | Inr dumped \<Rightarrow> Some dumped))"

definition call_effects :: "env \<Rightarrow> api_tool_call \<Rightarrow> effect list" where
  "call_effects env tool_call =
     (case json_loads env (call_arguments tool_call) of
        Inl err \<Rightarrow> []
      | Inr function_args \<Rightarrow>
          snd (execute_function_call env (call_name tool_call) function_args))"

text \<open>An endpoint that answers the i-th request of the session with the i-th outcome of
  a script, and some tool calls and answers for it.\<close>

definition scripted :: "(exn + message list) list \<Rightarrow> nat \<Rightarrow> request \<Rightarrow> exn + message list" where
  "scripted script i req =
     (if i < length script then script ! i else Inl (Exn OtherException ''end of script''))"

definition weather_call :: api_tool_call where
  "weather_call =
     \<lparr>call_id = ''call_1'', call_type = ''function'', call_name = ''get_real_weather'',
      call_arguments = ''paris''\<rparr>"

definition email_call :: api_tool_call where
  "email_call =
     \<lparr>call_id = ''call_1'', call_type = ''function'', call_name = ''send_email'',
      call_arguments = ''mail''\<rparr>"

definition followup_call :: api_tool_call where
  "followup_call =
     \<lparr>call_id = ''call_2'', call_type = ''function'', call_name = ''send_email'',
      call_arguments = ''mail''\<rparr>"

definition asks :: "api_tool_call list \<Rightarrow> exn + message list" where
  "asks tcs = Inr [\<lparr>msg_content = None, msg_tool_calls = Some tcs\<rparr>]"

definition says :: "string \<Rightarrow> exn + message list" where
  "says text = Inr [\<lparr>msg_content = Some text, msg_tool_calls = None\<rparr>]"

text \<open>Four sessions: a weather question; two calls with two ids; two calls that carry one
  id; an e-mail whose final answer is rate-limited once, after which the model asks for the
  e-mail again.\<close>

definition weather_env :: env where
  "weather_env = stub_env (scripted [asks [weather_call], says ''Clear, 18 degrees.''])"

definition pair_env :: env where
  "pair_env = stub_env (scripted [asks [weather_call, followup_call], says ''Done.''])"

definition twin_env :: env where
  "twin_env = stub_env (scripted [asks [weather_call, email_call], says ''Done.''])"

definition email_env :: env where
  "email_env =
     stub_env (scripted [asks [email_call], Inl (Exn RateLimitError ''429''),
                         asks [email_call], says ''Sent.''])"

text \<open>What the e-mail session sends, and the turn in which the model asks for it.\<close>

definition email_sent :: effect where
  "email_sent =
     SmtpSession ''smtp.gmail.com'' 587 ''your_email@gmail.com'' ''your_app_password''
       \<lparr>mail_from = ''your_email@gmail.com'', mail_to = PStr ''a@b.c'',
        mail_subject = PStr ''hi'', mail_content = PStr ''yo''\<rparr>"

definition email_asked :: turn where
  "email_asked =
     assistant_tool_turn \<lparr>msg_content = None, msg_tool_calls = Some [email_call]\<rparr>
       [email_call]"

text \<open>The envelope of the data model: a boolean \<open>success\<close> and exactly one of
  \<open>data\<close> and \<open>error\<close>, the error being a text.\<close>

definition tool_result_ok :: "pydict \<Rightarrow> bool" where
  "tool_result_ok r =
     (case map_of r ''success'' of
        Some (PBool b) \<Rightarrow>
          distinct (map fst r) \<and>
          (if b then set (map fst r) = {''success'', ''data''}
           else set (map fst r) = {''success'', ''error''} \<and>
                (case map_of r ''error'' of Some (PStr msg) \<Rightarrow> True | _ \<Rightarrow> False))
      | _ \<Rightarrow> False)"

section \<open>The dispatcher: properties\<close>

lemma tool_result_ok_success: "tool_result_ok (success d)"
  by (simp add: tool_result_ok_def success_def)

lemma tool_result_ok_failure: "tool_result_ok (failure msg)"
  by (simp add: tool_result_ok_def failure_def)

lemma function_map_names: "map fst (function_map env) = tools"
  by (simp add: function_map_def tools_def)

text \<open>
  C7. A name that is not a key of the function map is answered with the failure envelope
  whose error is the unknown-function text followed by the name, whatever the arguments
  are; no adapter runs, so no outbound call is made.
\<close>

theorem unknown_function_rejected:
  assumes "map_of (function_map env) function_name = None"
  shows "execute_function_call env function_name arguments
           = (failure (unknown_function_prefix @ function_name), [])
         \<and> map_of (fst (execute_function_call env function_name arguments)) ''success''
           = Some (PBool False)"
  using assms by (simp add: execute_function_call_def execute_function_call_with_def failure_def)

theorem unknown_function_rejected_witness:
  "map_of (function_map (stub_env (always_raises (Exn OtherException '''')))) ''get_weather'' = None
   \<and> execute_function_call (stub_env (always_raises (Exn OtherException ''''))) ''get_weather''
        (PDict [(''city'', PStr ''Paris'')])
      = (failure (unknown_function_prefix @ ''get_weather''), [])"
proof -
  have h: "map_of (function_map (stub_env (always_raises (Exn OtherException ''''))))
             ''get_weather'' = None"
    by (simp add: function_map_def)
  show ?thesis using h unknown_function_rejected [OF h] by simp
qed







lemma other_exception_wrapped:
  "execute_function_call_with [(''boom'', (\<lambda>arguments. (Inl (Exn OtherException ''disk full''), [])))]
        ''boom'' (PDict [])
     = (failure (execution_error_prefix @ ''disk full''), [])"
  by (simp add: execute_function_call_with_def)

lemma not_a_mapping_is_argument_error:
  "execute_function_call quiet_env ''send_email'' (PList [])
     = (failure (argument_error_prefix @ ''fault''), [])"
  by (simp add: execute_function_call_def execute_function_call_with_def function_map_def
        bound_method_def bind_arguments_def raise_fault_def stub_env_def quiet_env_def)

section \<open>The result envelope\<close>

lemmas envelope = tool_result_ok_success tool_result_ok_failure

lemma get_real_weather_envelope: "tool_result_ok (fst (get_real_weather env city units))"
  by (simp add: get_real_weather_def Let_def envelope split: sum.splits)

lemma search_news_envelope: "tool_result_ok (fst (search_news env query category country))"
  by (simp add: search_news_def Let_def envelope split: sum.splits)

lemma analyze_stock_envelope: "tool_result_ok (fst (analyze_stock env symbol period))"
  by (simp add: analyze_stock_def stock_except_def envelope split: sum.splits option.splits)

lemma send_email_envelope: "tool_result_ok (fst (send_email env to subject body))"
  by (simp add: send_email_def Let_def envelope split: sum.splits option.splits)

lemma send_message_with_weixin_envelope:
  "tool_result_ok (fst (send_message_with_weixin env user_name body))"
  by (simp add: send_message_with_weixin_def envelope split: option.splits)

lemma bound_method_envelope:
  assumes "\<And>vs. tool_result_ok (fst (body vs))"
    and "fst (bound_method env f params body arguments) = Inr r"
  shows "tool_result_ok r"
  using assms by (auto simp: bound_method_def split: sum.splits prod.splits) (metis fst_conv)

lemma function_map_envelope:
  assumes "map_of (function_map env) function_name = Some f" and "fst (f arguments) = Inr r"
  shows "tool_result_ok r"
  using assms
  by (auto simp: function_map_def split: if_splits
      intro: bound_method_envelope get_real_weather_envelope search_news_envelope analyze_stock_envelope send_email_envelope send_message_with_weixin_envelope)

lemma execute_function_call_envelope:
  "tool_result_ok (fst (execute_function_call env function_name arguments))"
proof (cases "map_of (function_map env) function_name")
  case None
  then show ?thesis
    by (simp add: execute_function_call_def execute_function_call_with_def envelope)
next
  case (Some f)
  then show ?thesis
    using function_map_envelope [OF Some, of arguments]
    by (auto simp: execute_function_call_def execute_function_call_with_def envelope
        split: prod.splits sum.splits)
qed

text \<open>
  C9. Every result of the five adapters and of \<open>execute_function_call\<close> has a boolean
  \<open>success\<close> and exactly one more key: \<open>data\<close> when \<open>success\<close> is true,
  \<open>error\<close> with a text when it is false.
\<close>

theorem results_never_partial:
  "tool_result_ok (fst (get_real_weather env city units))
   \<and> tool_result_ok (fst (search_news env query category country))
   \<and> tool_result_ok (fst (analyze_stock env symbol period))
   \<and> tool_result_ok (fst (send_email env to subject body))
   \<and> tool_result_ok (fst (send_message_with_weixin env user_name text))
   \<and> tool_result_ok (fst (execute_function_call env function_name arguments))"
  by (simp add: get_real_weather_envelope search_news_envelope analyze_stock_envelope
      send_email_envelope send_message_with_weixin_envelope execute_function_call_envelope)

section \<open>search_news and its category\<close>

text \<open>
  C10. Two calls of \<open>search_news\<close> that differ only in the category return the same
  result and make the same provider request, whose parameters are built from the query
  and the country alone; the same holds through the dispatcher.
\<close>

theorem search_news_ignores_category:
  "search_news env query category country = search_news env query category' country
   \<and> snd (search_news env query category country)
       = [HttpGet news_url (news_params env query country)]
   \<and> execute_function_call env ''search_news''
        (PDict [(''query'', query), (''category'', category), (''country'', country)])
     = execute_function_call env ''search_news''
        (PDict [(''query'', query), (''category'', category'), (''country'', country)])"
  by (simp add: search_news_def Let_def execute_function_call_def execute_function_call_with_def
        function_map_def bound_method_def bind_arguments_def)


section \<open>analyze_stock\<close>

lemma analyze_stock_no_yfinance:
  assumes "import_yfinance env = Some e" and "exn_class e = ImportError"
  shows "analyze_stock env symbol period = (failure yfinance_missing_message, [])"
  using assms by (simp add: analyze_stock_def stock_except_def)

lemma analyze_stock_empty_history:
  assumes "import_yfinance env = None" and "ticker_info env symbol = Inr info"
    and "ticker_history env symbol period = Inr []"
  shows "fst (analyze_stock env symbol period)
           = failure (stock_not_found_prefix @ fstring env symbol @ stock_not_found_suffix)"
  using assms by (simp add: analyze_stock_def)

lemma analyze_stock_two_bars:
  assumes "import_yfinance env = None" and "ticker_info env symbol = Inr info"
    and "ticker_history env symbol period = Inr hist" and "2 \<le> length hist"
  shows "\<exists>d. fst (analyze_stock env symbol period) = success (PDict d)
          \<and> map_of d ''current_price'' = Some (PFloat (round_float env (bar_close (last hist)) 2))
          \<and> map_of d ''price_change''
              = Some (PFloat (round_float env
                   (bar_close (last hist) - bar_close (hist ! (length hist - 2))) 2))
          \<and> map_of d ''52_week_high''
              = Some (PFloat (round_float env (Max (set (map bar_high hist))) 2))
          \<and> map_of d ''52_week_low''
              = Some (PFloat (round_float env (Min (set (map bar_low hist))) 2))"
proof -
  from assms(4) have "hist \<noteq> []" and "\<not> length hist < 2" by auto
  with assms(1-3) show ?thesis
    by (simp add: analyze_stock_def stock_analysis_def Let_def success_def)
qed

lemma analyze_stock_one_bar:
  assumes "import_yfinance env = None" and "ticker_info env symbol = Inr info"
    and "ticker_history env symbol period = Inr [b]"
  shows "fst (analyze_stock env symbol period)
           = failure (stock_error_prefix @ fault_text env IndexOutOfRange)"
  using assms
  by (simp add: analyze_stock_def stock_analysis_def stock_except_def raise_fault_def)

text \<open>
  C8. The claim promises a success envelope for every non-empty price history. Over one
  day the history of the stub has a single bar: the row before the last does not exist,
  the \<open>IndexError\<close> is caught by the last \<open>except\<close> clause, and the adapter answers
  with the failure envelope of a failed analysis.
\<close>

theorem analyze_stock_single_bar_fails:
  "analyze_stock quiet_env (PStr ''AAPL'') (PStr ''1d'')
     = (failure (stock_error_prefix @ ''fault''),
        [YfInfo (PStr ''AAPL''), YfHistory (PStr ''AAPL'') (PStr ''1d'')])
   \<and> ticker_history quiet_env (PStr ''AAPL'') (PStr ''1d'')
     = Inr [\<lparr>bar_close = 190, bar_high = 191, bar_low = 189, bar_volume = 1000\<rparr>]"
  by (simp add: analyze_stock_def stock_analysis_def stock_except_def raise_fault_def
        quiet_env_def stub_env_def stub_history_def)

section \<open>The retry budget\<close>

lemma tools_request_simps [simp]:
  "tools_request (s\<lparr>api_log := l\<rparr>) = tools_request s"
  "tools_request (s\<lparr>sleeps := w\<rparr>) = tools_request s"
  "tools_request (s\<lparr>effects := x\<rparr>) = tools_request s"
  by (simp_all add: tools_request_def)

lemma attempt_first_call_raises:
  assumes "create env (length (api_log s)) (tools_request s) = Inl e"
  shows "attempt env s = (Inl e, s\<lparr>api_log := api_log s @ [(tools_request s, Inl e)]\<rparr>)"
  using assms by (simp add: attempt_def call_model_def Let_def)

lemma chat_loop_exhausted:
  "\<not> int k < N \<Longrightarrow> chat_loop env N k s = (Some fallback_message, s)"
  by (subst chat_loop.simps) simp

lemma chat_loop_retry:
  assumes "int k < N" and "attempt env s = (Inl e, s1)"
  shows "chat_loop env N k s =
           (if exn_class e = RateLimitError
            then chat_loop env N (k + 1) (s1\<lparr>sleeps := sleeps s1 @ [2 ^ (k + 1)]\<rparr>)
            else if exn_class e = APITimeoutError then chat_loop env N (k + 1) s1
            else (Some (apology_prefix @ exn_str e), s1))"
  using assms by (subst chat_loop.simps) simp

lemma chat_loop_returns:
  assumes "int k < N" and "attempt env s = (Inr r, s1)"
  shows "chat_loop env N k s = (r, s1)"
  using assms by (subst chat_loop.simps) simp









section \<open>The loop: what it keeps and when it stops\<close>


lemma final_request_simps [simp]:
  "final_request (s\<lparr>api_log := l\<rparr>) = final_request s"
  "final_request (s\<lparr>sleeps := w\<rparr>) = final_request s"
  "final_request (s\<lparr>effects := x\<rparr>) = final_request s"
  by (simp_all add: final_request_def)

lemma run_tools_frame:
  "run_tools env tcs s = (r, s') \<Longrightarrow> api_log s' = api_log s \<and> sleeps s' = sleeps s"
proof (induction tcs arbitrary: s)
  case Nil
  then show ?case by simp
next
  case (Cons tc tcs)
  then show ?case
    by (auto simp: append_turn_def split: sum.splits prod.splits)
qed

lemma run_tools_history:
  "run_tools env tcs s = (r, s') \<Longrightarrow>
     \<exists>texts. length texts \<le> length tcs \<and> (r = None \<longrightarrow> length texts = length tcs)
       \<and> conversation_history s' = conversation_history s @ tool_turns texts tcs"
proof (induction tcs arbitrary: s)
  case Nil
  then show ?case by (simp add: tool_turns_def)
next
  case (Cons tc tcs)
  show ?case
  proof (cases "json_loads env (call_arguments tc)")
    case (Inl err)
    with Cons.prems show ?thesis
      by (intro exI [of _ "[]"]) (auto simp: tool_turns_def)
  next
    case (Inr function_args)
    obtain function_result fx
      where ex: "execute_function_call env (call_name tc) function_args = (function_result, fx)"
      by (cases "execute_function_call env (call_name tc) function_args")
    show ?thesis
    proof (cases "json_dumps env (PDict function_result)")
      case (Inl err)
      with Cons.prems Inr ex show ?thesis
        by (intro exI [of _ "[]"]) (auto simp: tool_turns_def)
    next
      case dumped: (Inr dumped_text)
      let ?s1 = "append_turn (tool_turn dumped_text tc) (s\<lparr>effects := effects s @ fx\<rparr>)"
      from Cons.prems Inr ex dumped have "run_tools env tcs ?s1 = (r, s')" by simp
      from Cons.IH [OF this] obtain texts where t: "length texts \<le> length tcs"
        "r = None \<longrightarrow> length texts = length tcs"
        "conversation_history s' = conversation_history ?s1 @ tool_turns texts tcs"
        by blast
      then show ?thesis
        by (intro exI [of _ "dumped_text # texts"]) (simp add: tool_turns_def append_turn_def)
    qed
  qed
qed

lemma run_tools_raises:
  "run_tools env tcs s = (Some e, s') \<Longrightarrow>
     exn_class e \<noteq> RateLimitError \<and> exn_class e \<noteq> APITimeoutError"
proof (induction tcs arbitrary: s)
  case Nil
  then show ?case by simp
next
  case (Cons tc tcs)
  then show ?case
    by (auto split: sum.splits prod.splits)
qed

text \<open>What one attempt does once the first response is known.\<close>

lemma attempt_first_call_answers:
  assumes "create env (length (api_log s)) (tools_request s) = Inr (m # ms)"
  shows "attempt env s =
           (case msg_tool_calls m of
              Some (tc # tcs) \<Rightarrow>
                (case run_tools env (tc # tcs)
                        (append_turn (assistant_tool_turn m (tc # tcs))
                           (s\<lparr>api_log := api_log s @ [(tools_request s, Inr (m # ms))]\<rparr>)) of
                   (Some e, s2) \<Rightarrow> (Inl e, s2)
                 | (None, s2) \<Rightarrow> final_answer env s2)
            | _ \<Rightarrow>
                (Inr (msg_content m),
                 append_turn (assistant_turn (msg_content m))
                   (s\<lparr>api_log := api_log s @ [(tools_request s, Inr (m # ms))]\<rparr>)))"
  using assms by (simp add: attempt_def call_model_def Let_def first_choice_def)

lemma final_answer_raises:
  assumes "create env (length (api_log s)) (final_request s) = Inl e"
  shows "final_answer env s = (Inl e, s\<lparr>api_log := api_log s @ [(final_request s, Inl e)]\<rparr>)"
  using assms by (simp add: final_answer_def call_model_def Let_def)

lemma final_answer_answers:
  assumes "create env (length (api_log s)) (final_request s) = Inr (m # ms)"
  shows "final_answer env s =
           (Inr (msg_content m),
            append_turn (assistant_turn (msg_content m))
              (s\<lparr>api_log := api_log s @ [(final_request s, Inr (m # ms))]\<rparr>))"
  using assms by (simp add: final_answer_def call_model_def Let_def first_choice_def)

lemma final_answer_log:
  "final_answer env s = (out, s') \<Longrightarrow>
     api_log s' = api_log s @ [(final_request s, create env (length (api_log s)) (final_request s))]
     \<and> (\<forall>r. out = Inr r \<longrightarrow>
           (\<exists>m ms. create env (length (api_log s)) (final_request s) = Inr (m # ms)))"
  by (auto simp: final_answer_def call_model_def Let_def first_choice_def append_turn_def
        raise_fault_def split: sum.splits list.splits)

lemma attempt_log:
  "attempt env s = (out, s') \<Longrightarrow>
     \<exists>xs. api_log s' =
       api_log s @ (tools_request s, create env (length (api_log s)) (tools_request s)) # xs"
  by (auto simp: attempt_def call_model_def Let_def first_choice_def append_turn_def
        raise_fault_def
      dest!: run_tools_frame final_answer_log
      split: sum.splits list.splits option.splits prod.splits)

lemma chat_loop_log:
  "chat_loop env N k s = (r, s') \<Longrightarrow> \<exists>xs. api_log s' = api_log s @ xs"
proof (induction env N k s rule: chat_loop.induct)
  case (1 env N k s)
  show ?case
  proof (cases "int k < N")
    case False
    with "1.prems" show ?thesis by (simp add: chat_loop.simps)
  next
    case True
    obtain out s1 where att: "attempt env s = (out, s1)" by (cases "attempt env s")
    from attempt_log [OF att] obtain xs where xs: "api_log s1 = api_log s @ xs" by blast
    show ?thesis
    proof (cases out)
      case (Inr x)
      with True att "1.prems" xs show ?thesis
        by (subst (asm) chat_loop.simps) auto
    next
      case (Inl e)
      consider (rl) "exn_class e = RateLimitError"
        | (to) "exn_class e \<noteq> RateLimitError" "exn_class e = APITimeoutError"
        | (other) "exn_class e \<noteq> RateLimitError" "exn_class e \<noteq> APITimeoutError"
        by blast
      then show ?thesis
      proof cases
        case rl
        with True att Inl "1.prems"
        have "chat_loop env N (k + 1) (s1\<lparr>sleeps := sleeps s1 @ [2 ^ (k + 1)]\<rparr>) = (r, s')"
          by (subst (asm) chat_loop.simps) simp
        from "1.IH"(1) [OF True att [symmetric] _ rl this] Inl xs show ?thesis by auto
      next
        case to
        with True att Inl "1.prems"
        have "chat_loop env N (k + 1) s1 = (r, s')"
          by (subst (asm) chat_loop.simps) simp
        from "1.IH"(2) [OF True att [symmetric] _ to this] Inl xs show ?thesis by auto
      next
        case other
        with True att Inl "1.prems" xs show ?thesis
          by (subst (asm) chat_loop.simps) auto
      qed
    qed
  qed
qed


lemma chat_loop_after_attempt:
  assumes "int k < N" and "attempt env s = (out, s1)" and "chat_loop env N k s = (r, s')"
  shows "\<exists>ys. api_log s' = api_log s1 @ ys"
proof (cases out)
  case (Inr x)
  with assms chat_loop_returns [OF assms(1), of env s x s1] show ?thesis by simp
next
  case (Inl e)
  with assms have att: "attempt env s = (Inl e, s1)" by simp
  note step = chat_loop_retry [OF assms(1) att]
  consider (rl) "exn_class e = RateLimitError"
    | (to) "exn_class e \<noteq> RateLimitError" "exn_class e = APITimeoutError"
    | (other) "exn_class e \<noteq> RateLimitError" "exn_class e \<noteq> APITimeoutError"
    by blast
  then show ?thesis
  proof cases
    case rl
    with step assms(3)
    have "chat_loop env N (k + 1) (s1\<lparr>sleeps := sleeps s1 @ [2 ^ (k + 1)]\<rparr>) = (r, s')"
      by simp
    from chat_loop_log [OF this] show ?thesis by simp
  next
    case to
    with step assms(3) have "chat_loop env N (k + 1) s1 = (r, s')" by simp
    from chat_loop_log [OF this] show ?thesis by simp
  next
    case other
    with step assms(3) show ?thesis by simp
  qed
qed



section \<open>One exchange with one tool call\<close>

lemma run_tools_trace:
  "run_tools env tcs s = (r, s') \<Longrightarrow>
     \<exists>texts. length texts \<le> length tcs
       \<and> map (call_text env) (take (length texts) tcs) = map Some texts
       \<and> conversation_history s' = conversation_history s @ tool_turns texts tcs
       \<and> effects s' = effects s @ concat (map (call_effects env) (take (Suc (length texts)) tcs))
       \<and> (r = None \<longrightarrow> length texts = length tcs)
       \<and> (r \<noteq> None \<longrightarrow> length texts < length tcs \<and> call_text env (tcs ! length texts) = None)"
proof (induction tcs arbitrary: s)
  case Nil
  then show ?case by (simp add: tool_turns_def)
next
  case (Cons tc tcs)
  show ?case
  proof (cases "json_loads env (call_arguments tc)")
    case (Inl err)
    with Cons.prems show ?thesis
      by (intro exI [of _ "[]"]) (auto simp: tool_turns_def call_text_def call_effects_def)
  next
    case (Inr function_args)
    obtain function_result fx
      where ex: "execute_function_call env (call_name tc) function_args = (function_result, fx)"
      by (cases "execute_function_call env (call_name tc) function_args")
    show ?thesis
    proof (cases "json_dumps env (PDict function_result)")
      case (Inl err)
      with Cons.prems Inr ex show ?thesis
        by (intro exI [of _ "[]"]) (auto simp: tool_turns_def call_text_def call_effects_def)
    next
      case dumped: (Inr dumped_text)
      let ?s1 = "append_turn (tool_turn dumped_text tc) (s\<lparr>effects := effects s @ fx\<rparr>)"
      from Cons.prems Inr ex dumped have "run_tools env tcs ?s1 = (r, s')" by simp
      from Cons.IH [OF this] obtain texts where t: "length texts \<le> length tcs"
        "map (call_text env) (take (length texts) tcs) = map Some texts"
        "conversation_history s' = conversation_history ?s1 @ tool_turns texts tcs"
        "effects s' = effects ?s1 @ concat (map (call_effects env) (take (Suc (length texts)) tcs))"
        "r = None \<longrightarrow> length texts = length tcs"
        "r \<noteq> None \<longrightarrow> length texts < length tcs \<and> call_text env (tcs ! length texts) = None"
        by blast
      have ct: "call_text env tc = Some dumped_text" and ce: "call_effects env tc = fx"
        using Inr ex dumped by (simp_all add: call_text_def call_effects_def)
      show ?thesis
      proof (intro exI [of _ "dumped_text # texts"] conjI)
        show "length (dumped_text # texts) \<le> length (tc # tcs)" using t(1) by simp
        show "map (call_text env) (take (length (dumped_text # texts)) (tc # tcs))
                = map Some (dumped_text # texts)"
          using t(2) ct by simp
        show "conversation_history s' =
                conversation_history s @ tool_turns (dumped_text # texts) (tc # tcs)"
          using t(3) by (simp add: tool_turns_def append_turn_def)
        show "effects s' = effects s @
                concat (map (call_effects env) (take (Suc (length (dumped_text # texts))) (tc # tcs)))"
          using t(4) ce by (simp add: append_turn_def)
        show "r = None \<longrightarrow> length (dumped_text # texts) = length (tc # tcs)"
          using t(5) by simp
        show "r \<noteq> None \<longrightarrow> length (dumped_text # texts) < length (tc # tcs)
                \<and> call_text env ((tc # tcs) ! length (dumped_text # texts)) = None"
          using t(6) by simp
      qed
    qed
  qed
qed

lemma final_answer_effects:
  "final_answer env s = (out, s') \<Longrightarrow> effects s' = effects s"
  by (auto simp: final_answer_def call_model_def Let_def first_choice_def append_turn_def
        raise_fault_def split: sum.splits list.splits)


lemma call_text_Some:
  assumes "call_text env tc = Some dumped"
  shows "\<exists>function_args. json_loads env (call_arguments tc) = Inr function_args
           \<and> json_dumps env
                 (PDict (fst (execute_function_call env (call_name tc) function_args)))
               = Inr dumped
           \<and> call_effects env tc
               = snd (execute_function_call env (call_name tc) function_args)"
  using assms by (auto simp: call_text_def call_effects_def split: sum.splits)

text \<open>
  C3. Take a run for one user message in which the session sent exactly two requests to
  the model, the first answered by a message that asks for exactly one tool call and the
  second answered too. Then the history has grown by exactly four turns, in this order: a
  turn of role user with the user's message; a turn of role assistant with the content of
  the model's message (absent or not) and the id, type, name and raw arguments of the
  call; a turn of role tool with the id of the call, whose content is the serialised result
  of dispatching the call on its parsed arguments; and a turn of role assistant with the
  content of the model's second message. The value returned is the content of that last
  turn. The first request offered the tools over the history up to the user turn, the
  second offered none over the history up to the tool turn.
\<close>

theorem one_tool_exchange:
  assumes run: "chat_with_function_calling env user_message max_retries s = (r, s')"
    and log: "api_log s' = api_log s @ [(req1, Inr (m1 # ms1)), (req2, Inr (m2 # ms2))]"
    and one: "msg_tool_calls m1 = Some [tc]"
  shows "\<exists>function_args dumped.
         json_loads env (call_arguments tc) = Inr function_args
       \<and> json_dumps env
             (PDict (fst (execute_function_call env (call_name tc) function_args)))
           = Inr dumped
       \<and> conversation_history s' =
            conversation_history s @
              [\<lparr>role = ''user'', content = Some user_message, tool_calls = None,
                tool_call_id = None\<rparr>,
               \<lparr>role = ''assistant'', content = msg_content m1,
                tool_calls =
                  Some [\<lparr>tc_id = call_id tc, tc_type = call_type tc,
                         tc_function = \<lparr>fd_name = call_name tc,
                                         fd_arguments = call_arguments tc\<rparr>\<rparr>],
                tool_call_id = None\<rparr>,
               \<lparr>role = ''tool'', content = Some dumped, tool_calls = None,
                tool_call_id = Some (call_id tc)\<rparr>,
               \<lparr>role = ''assistant'', content = msg_content m2, tool_calls = None,
                tool_call_id = None\<rparr>]
       \<and> length (conversation_history s') = length (conversation_history s) + 4
       \<and> role (last (conversation_history s')) = ''assistant''
       \<and> r = content (last (conversation_history s'))
       \<and> r = msg_content m2
       \<and> effects s' = effects s @ snd (execute_function_call env (call_name tc) function_args)
       \<and> sleeps s' = sleeps s
       \<and> req1 = \<lparr>req_messages = take (length (conversation_history s) + 1)
                                     (conversation_history s'),
                  req_tools = Some tools, req_tool_choice = Some ''auto''\<rparr>
       \<and> req2 = \<lparr>req_messages = take (length (conversation_history s) + 3)
                                     (conversation_history s'),
                  req_tools = None, req_tool_choice = None\<rparr>"
proof -
  let ?s0 = "append_turn (user_turn user_message) s"
  have s0: "api_log ?s0 = api_log s"
    "conversation_history ?s0 = conversation_history s @ [user_turn user_message]"
    "effects ?s0 = effects s" "sleeps ?s0 = sleeps s"
    by (simp_all add: append_turn_def)
  from run have loop: "chat_loop env max_retries 0 ?s0 = (r, s')"
    by (simp add: chat_with_function_calling_def)
  have lt: "int 0 < max_retries"
  proof (rule ccontr)
    assume "\<not> int 0 < max_retries"
    from chat_loop_exhausted [OF this, of env ?s0] loop log s0 show False by auto
  qed
  obtain out s1 where att: "attempt env ?s0 = (out, s1)" by (cases "attempt env ?s0")
  let ?o1 = "create env (length (api_log ?s0)) (tools_request ?s0)"
  from attempt_log [OF att] obtain xs
    where xs: "api_log s1 = api_log s @ (tools_request ?s0, ?o1) # xs"
    by (auto simp: s0)
  from chat_loop_after_attempt [OF lt att loop] obtain ys
    where ys: "api_log s' = api_log s1 @ ys" by blast
  from xs ys log have o1: "?o1 = Inr (m1 # ms1)" and r1: "req1 = tools_request ?s0" by simp_all
  let ?sA = "append_turn (assistant_tool_turn m1 [tc])
               (?s0\<lparr>api_log := api_log ?s0 @ [(tools_request ?s0, Inr (m1 # ms1))]\<rparr>)"
  have sA: "api_log ?sA = api_log s @ [(tools_request ?s0, Inr (m1 # ms1))]"
    "conversation_history ?sA = conversation_history s @
        [user_turn user_message, assistant_tool_turn m1 [tc]]"
    "effects ?sA = effects s" "sleeps ?sA = sleeps s"
    by (simp_all add: append_turn_def)
  obtain rt s2 where rt: "run_tools env [tc] ?sA = (rt, s2)" by (cases "run_tools env [tc] ?sA")
  from attempt_first_call_answers [OF o1] one rt att
  have out: "(out, s1) = (case rt of Some e \<Rightarrow> (Inl e, s2) | None \<Rightarrow> final_answer env s2)"
    by (simp split: option.splits)
  from run_tools_frame [OF rt] sA
  have s2: "api_log s2 = api_log s @ [(tools_request ?s0, Inr (m1 # ms1))]"
    "sleeps s2 = sleeps s"
    by simp_all
  show ?thesis
  proof (cases rt)
    case (Some e)
    with out have a: "attempt env ?s0 = (Inl e, s2)" and s1: "s1 = s2" using att by auto
    from run_tools_raises rt Some
    have "exn_class e \<noteq> RateLimitError \<and> exn_class e \<noteq> APITimeoutError" by blast
    with chat_loop_retry [OF lt a] loop have "s' = s2" by simp
    with s2 log show ?thesis by simp
  next
    case None
    with out have fa: "final_answer env s2 = (out, s1)" by simp
    let ?o2 = "create env (length (api_log s2)) (final_request s2)"
    from final_answer_log [OF fa] s2
    have l1: "api_log s1 = api_log s @ [(tools_request ?s0, Inr (m1 # ms1)), (final_request s2, ?o2)]"
      by simp
    with ys log have o2: "?o2 = Inr (m2 # ms2)" and r2: "req2 = final_request s2" by simp_all
    from final_answer_answers [OF o2] fa
    have res: "out = Inr (msg_content m2)"
      "s1 = append_turn (assistant_turn (msg_content m2))
              (s2\<lparr>api_log := api_log s2 @ [(final_request s2, Inr (m2 # ms2))]\<rparr>)"
      by simp_all
    from chat_loop_returns [OF lt, of env ?s0 "msg_content m2" s1] att res(1) loop
    have fin: "r = msg_content m2" "s' = s1" by simp_all
    from run_tools_trace [OF rt] None obtain texts
      where t: "length texts = length [tc]"
        "map (call_text env) (take (length texts) [tc]) = map Some texts"
        "conversation_history s2 = conversation_history ?sA @ tool_turns texts [tc]"
        "effects s2 = effects ?sA @ concat (map (call_effects env) (take (Suc (length texts)) [tc]))"
      by auto
    from t(1) obtain dumped where d: "texts = [dumped]"
      by (cases texts) auto
    with t(2) have "call_text env tc = Some dumped" by simp
    from call_text_Some [OF this] obtain function_args
      where fa1: "json_loads env (call_arguments tc) = Inr function_args"
        and fa2: "json_dumps env
                   (PDict (fst (execute_function_call env (call_name tc) function_args)))
                  = Inr dumped"
        and fa3: "call_effects env tc
                   = snd (execute_function_call env (call_name tc) function_args)"
      by blast
    have h2: "conversation_history s2 =
                conversation_history s @
                  [user_turn user_message, assistant_tool_turn m1 [tc], tool_turn dumped tc]"
      using t(3) d sA(2) by (simp add: tool_turns_def)
    have h: "conversation_history s' =
               conversation_history s @
                 [user_turn user_message, assistant_tool_turn m1 [tc], tool_turn dumped tc,
                  assistant_turn (msg_content m2)]"
      using fin(2) res(2) h2 by (simp add: append_turn_def)
    have fx: "effects s' = effects s @ snd (execute_function_call env (call_name tc) function_args)"
      using fin(2) res(2) t(4) d sA(3) fa3 by (simp add: append_turn_def)
    have sl: "sleeps s' = sleeps s"
      using fin(2) res(2) s2(2) by (simp add: append_turn_def)
    have q1: "req1 = \<lparr>req_messages = take (length (conversation_history s) + 1)
                                     (conversation_history s'),
                  req_tools = Some tools, req_tool_choice = Some ''auto''\<rparr>"
      using r1 h s0(2) by (simp add: tools_request_def)
    have q2: "req2 = \<lparr>req_messages = take (length (conversation_history s) + 3)
                                     (conversation_history s'),
                  req_tools = None, req_tool_choice = None\<rparr>"
      using r2 h h2 by (simp add: final_request_def)
    show ?thesis
    proof (intro exI [of _ function_args] exI [of _ dumped] conjI)
      show "json_loads env (call_arguments tc) = Inr function_args" by (rule fa1)
      show "json_dumps env
             (PDict (fst (execute_function_call env (call_name tc) function_args)))
           = Inr dumped" by (rule fa2)
      show "r = msg_content m2" by (rule fin(1))
      show "effects s' = effects s @ snd (execute_function_call env (call_name tc) function_args)"
        by (rule fx)
      show "sleeps s' = sleeps s" by (rule sl)
      show "req1 = \<lparr>req_messages = take (length (conversation_history s) + 1)
                                     (conversation_history s'),
                  req_tools = Some tools, req_tool_choice = Some ''auto''\<rparr>" by (rule q1)
      show "req2 = \<lparr>req_messages = take (length (conversation_history s) + 3)
                                     (conversation_history s'),
                  req_tools = None, req_tool_choice = None\<rparr>" by (rule q2)
    qed (simp_all add: h fin(1) user_turn_def assistant_turn_def assistant_tool_turn_def
           tool_turn_def tool_call_entry_def)
  qed
qed




section \<open>Running the sessions\<close>

lemmas run_defs =
  attempt_def final_answer_def call_model_def first_choice_def Let_def append_turn_def
  tools_request_def final_request_def scripted_def asks_def says_def
  stub_env_def stub_loads_def empty_session_def
  execute_function_call_def execute_function_call_with_def function_map_def bound_method_def
  bind_arguments_def

lemma weather_attempt:
  "attempt weather_env (append_turn (user_turn ''weather?'') empty_session)
     = (Inr (Some ''Clear, 18 degrees.''),
        \<lparr>conversation_history =
           [user_turn ''weather?'',
            assistant_tool_turn \<lparr>msg_content = None, msg_tool_calls = Some [weather_call]\<rparr>
              [weather_call],
            tool_turn ''result'' weather_call,
            assistant_turn (Some ''Clear, 18 degrees.'')],
         api_log =
           [(\<lparr>req_messages = [user_turn ''weather?''], req_tools = Some tools,
              req_tool_choice = Some ''auto''\<rparr>,
             asks [weather_call]),
            (\<lparr>req_messages =
                [user_turn ''weather?'',
                 assistant_tool_turn \<lparr>msg_content = None, msg_tool_calls = Some [weather_call]\<rparr>
                   [weather_call],
                 tool_turn ''result'' weather_call],
              req_tools = None, req_tool_choice = None\<rparr>,
             says ''Clear, 18 degrees.'')],
         sleeps = [],
         effects = [HttpGet weather_url
                      (weather_params weather_env (PStr ''Paris'') (PStr ''metric''))]\<rparr>)"
  by (simp add: run_defs weather_env_def weather_call_def get_real_weather_def)


lemma weather_adapter_runs:
  "fst (get_real_weather weather_env (PStr ''Paris'') (PStr ''metric''))
     = success (PDict
         [(''city'', PStr ''Paris''), (''country'', PStr ''FR''), (''temperature'', PInt 18),
          (''feels_like'', PInt 17), (''humidity'', PInt 60), (''pressure'', PInt 1012),
          (''description'', PStr ''clear''), (''wind_speed'', PInt 3),
          (''visibility'', PFloat 10), (''units'', PStr degrees_celsius),
          (''timestamp'', PStr ''2024-01-01 00:00:00'')])"
  by (simp add: get_real_weather_def weather_params_def fetch_json_def bindE_def
        weather_info_def stub_weather_def weather_env_def stub_env_def Let_def
        float_overflow_limit_def)

theorem one_tool_exchange_witness:
  "\<exists>s'. chat_with_function_calling weather_env ''weather?'' 3 empty_session
            = (Some ''Clear, 18 degrees.'', s')
     \<and> length (api_log s') = 2
     \<and> conversation_history s' =
          [\<lparr>role = ''user'', content = Some ''weather?'', tool_calls = None,
            tool_call_id = None\<rparr>,
           \<lparr>role = ''assistant'', content = None,
            tool_calls =
              Some [\<lparr>tc_id = ''call_1'', tc_type = ''function'',
                     tc_function = \<lparr>fd_name = ''get_real_weather'',
                                     fd_arguments = ''paris''\<rparr>\<rparr>],
            tool_call_id = None\<rparr>,
           \<lparr>role = ''tool'', content = Some ''result'', tool_calls = None,
            tool_call_id = Some ''call_1''\<rparr>,
           \<lparr>role = ''assistant'', content = Some ''Clear, 18 degrees.'', tool_calls = None,
            tool_call_id = None\<rparr>]
     \<and> content (last (conversation_history s')) = Some ''Clear, 18 degrees.''
     \<and> effects s' =
          [HttpGet weather_url (weather_params weather_env (PStr ''Paris'') (PStr ''metric''))]"
proof -
  let ?s0 = "append_turn (user_turn ''weather?'') empty_session"
  let ?m1 = "\<lparr>msg_content = None, msg_tool_calls = Some [weather_call]\<rparr>"
  let ?m2 = "\<lparr>msg_content = Some ''Clear, 18 degrees.'', msg_tool_calls = None\<rparr>"
  let ?req1 = "\<lparr>req_messages = [user_turn ''weather?''], req_tools = Some tools,
                 req_tool_choice = Some ''auto''\<rparr>"
  let ?req2 = "\<lparr>req_messages =
                [user_turn ''weather?'', assistant_tool_turn ?m1 [weather_call],
                 tool_turn ''result'' weather_call],
              req_tools = None, req_tool_choice = None\<rparr>"
  obtain s' where att: "attempt weather_env ?s0 = (Inr (Some ''Clear, 18 degrees.''), s')"
    and l: "api_log s' = [(?req1, asks [weather_call]), (?req2, says ''Clear, 18 degrees.'')]"
    and fx: "effects s' =
          [HttpGet weather_url (weather_params weather_env (PStr ''Paris'') (PStr ''metric''))]"
    using weather_attempt by simp
  have lt: "int 0 < 3" by simp
  have run: "chat_with_function_calling weather_env ''weather?'' 3 empty_session
               = (Some ''Clear, 18 degrees.'', s')"
    unfolding chat_with_function_calling_def by (rule chat_loop_returns [OF lt att])
  have log: "api_log s' = api_log empty_session @
               [(?req1, Inr (?m1 # [])), (?req2, Inr (?m2 # []))]"
    by (simp add: l empty_session_def asks_def says_def)
  have one: "msg_tool_calls ?m1 = Some [weather_call]" by simp
  from one_tool_exchange [OF run log one] obtain function_args dumped
    where a: "json_loads weather_env (call_arguments weather_call) = Inr function_args"
      and b: "json_dumps weather_env
                (PDict (fst (execute_function_call weather_env (call_name weather_call)
                               function_args))) = Inr dumped"
      and h: "conversation_history s' =
            conversation_history empty_session @
              [\<lparr>role = ''user'', content = Some ''weather?'', tool_calls = None,
                tool_call_id = None\<rparr>,
               \<lparr>role = ''assistant'', content = msg_content ?m1,
                tool_calls =
                  Some [\<lparr>tc_id = call_id weather_call, tc_type = call_type weather_call,
                         tc_function = \<lparr>fd_name = call_name weather_call,
                                         fd_arguments = call_arguments weather_call\<rparr>\<rparr>],
                tool_call_id = None\<rparr>,
               \<lparr>role = ''tool'', content = Some dumped, tool_calls = None,
                tool_call_id = Some (call_id weather_call)\<rparr>,
               \<lparr>role = ''assistant'', content = msg_content ?m2, tool_calls = None,
                tool_call_id = None\<rparr>]"
      and c: "Some ''Clear, 18 degrees.'' = content (last (conversation_history s'))"
    by blast
  from b have "dumped = ''result''"
    by (simp add: weather_env_def stub_env_def)
  with h c run l fx show ?thesis
    by (intro exI [of _ s']) (simp add: empty_session_def weather_call_def)
qed

section \<open>Tool turns and the invocations they answer\<close>

lemma tool_turn_ids:
  "map tool_call_id (tool_turns texts tcs)
     = map (\<lambda>tc. Some (tc_id (tool_call_entry tc))) (take (length texts) tcs)"
proof (induction texts arbitrary: tcs)
  case Nil
  then show ?case by (simp add: tool_turns_def)
next
  case (Cons a texts)
  then show ?case
    by (cases tcs) (simp_all add: tool_turns_def tool_turn_def tool_call_entry_def)
qed

lemma tool_turn_roles: "t \<in> set (tool_turns texts tcs) \<Longrightarrow> role t = ''tool''"
  by (auto simp: tool_turns_def tool_turn_def dest!: set_zip_rightD)

lemma one_match:
  assumes "distinct (map f xs)" and "x \<in> set xs"
  shows "length (filter (\<lambda>y. f x = f y) xs) = 1"
  using assms
proof (induction xs)
  case Nil
  then show ?case by simp
next
  case (Cons a xs)
  show ?case
  proof (cases "x = a")
    case True
    with Cons.prems have "filter (\<lambda>y. f a = f y) xs = []"
      by (auto simp: filter_empty_conv)
    with True show ?thesis by simp
  next
    case False
    with Cons.prems have x: "x \<in> set xs" and "f a \<notin> f ` set xs" by auto
    then have "f x \<noteq> f a" by (metis imageI)
    with Cons x show ?thesis by simp
  qed
qed

lemma tool_turn_matches_once:
  assumes "distinct (map call_id tcs)" and "t \<in> set (tool_turns texts tcs)"
  shows "length (matching_entries t (map tool_call_entry tcs)) = 1"
proof -
  from assms(2) obtain dumped tc where t: "t = tool_turn dumped tc" and tc: "tc \<in> set tcs"
    by (auto simp: tool_turns_def dest: set_zip_rightD)
  have "matching_entries t (map tool_call_entry tcs)
          = map tool_call_entry (filter (\<lambda>y. call_id tc = call_id y) tcs)"
    by (simp add: matching_entries_def t tool_turn_def filter_map o_def tool_call_entry_def)
  with one_match [OF assms(1) tc] show ?thesis by simp
qed

lemma final_answer_history:
  "final_answer env s = (out, s') \<Longrightarrow>
     conversation_history s' = conversation_history s
     \<or> (\<exists>answer. out = Inr answer
           \<and> conversation_history s' = conversation_history s @ [assistant_turn answer])"
  by (auto simp: final_answer_def call_model_def Let_def first_choice_def append_turn_def
        raise_fault_def split: sum.splits list.splits)

text \<open>
  C4, as amended. In one pass through the tool-dispatch path the history grows by the
  assistant turn that carries the requested calls, then by one tool turn per call in the
  order of the calls (a pass that an exception leaves early has appended tool turns for
  the first calls only), then by the final assistant turn when the pass gets that far. The
  i-th tool turn carries the id of the i-th entry of that assistant turn, and its content
  is the serialised result of dispatching the i-th call. The calls are executed one after
  the other in the order requested: the outbound calls of the pass are those of the first
  call, then those of the second, and so on, up to the call at which the pass stopped.
  When the ids of the batch are pairwise distinct, each tool turn's id is the id of
  exactly one entry.
\<close>

theorem tool_turns_follow_invocations:
  assumes "create env (length (api_log s)) (tools_request s) = Inr (m # ms)"
    and "msg_tool_calls m = Some tcs" and "tcs \<noteq> []"
    and "attempt env s = (out, s')"
  shows "\<exists>texts tail. length texts \<le> length tcs
      \<and> conversation_history s' =
           conversation_history s @ assistant_tool_turn m tcs # tool_turns texts tcs @ tail
      \<and> (tail = [] \<or> (length texts = length tcs \<and> (\<exists>answer. tail = [assistant_turn answer])))
      \<and> tool_calls (assistant_tool_turn m tcs) = Some (map tool_call_entry tcs)
      \<and> map tool_call_id (tool_turns texts tcs)
           = map (\<lambda>tc. Some (tc_id (tool_call_entry tc))) (take (length texts) tcs)
      \<and> (distinct (map call_id tcs) \<longrightarrow>
            (\<forall>t \<in> set (tool_turns texts tcs).
               length (matching_entries t (map tool_call_entry tcs)) = 1))
      \<and> assistant_tool_turn m tcs =
           \<lparr>role = ''assistant'', content = msg_content m,
            tool_calls =
              Some (map (\<lambda>tc. \<lparr>tc_id = call_id tc, tc_type = call_type tc,
                                 tc_function = \<lparr>fd_name = call_name tc,
                                                 fd_arguments = call_arguments tc\<rparr>\<rparr>) tcs),
            tool_call_id = None\<rparr>
      \<and> tool_turns texts tcs =
           map (\<lambda>(dumped, tc). \<lparr>role = ''tool'', content = Some dumped, tool_calls = None,
                                  tool_call_id = Some (call_id tc)\<rparr>) (zip texts tcs)
      \<and> (\<forall>answer. tail = [assistant_turn answer] \<longrightarrow>
            out = Inr answer
            \<and> tail = [\<lparr>role = ''assistant'', content = answer, tool_calls = None,
                        tool_call_id = None\<rparr>])
      \<and> map (call_text env) (take (length texts) tcs) = map Some texts
      \<and> effects s' =
           effects s @ concat (map (call_effects env) (take (Suc (length texts)) tcs))
      \<and> (length texts < length tcs \<longrightarrow>
            tail = [] \<and> call_text env (tcs ! length texts) = None \<and> (\<exists>e. out = Inl e))"
proof -
  from assms(3) obtain tc rest where tcs: "tcs = tc # rest" by (cases tcs) auto
  let ?sA = "append_turn (assistant_tool_turn m tcs)
               (s\<lparr>api_log := api_log s @ [(tools_request s, Inr (m # ms))]\<rparr>)"
  have sA: "conversation_history ?sA = conversation_history s @ [assistant_tool_turn m tcs]"
    "effects ?sA = effects s"
    by (simp_all add: append_turn_def)
  obtain rt s2 where rt: "run_tools env tcs ?sA = (rt, s2)" by (cases "run_tools env tcs ?sA")
  from attempt_first_call_answers [OF assms(1)] assms(2,4) tcs rt
  have out: "(out, s') = (case rt of Some e \<Rightarrow> (Inl e, s2) | None \<Rightarrow> final_answer env s2)"
    by (simp split: option.splits)
  from run_tools_trace [OF rt] obtain texts
    where t: "length texts \<le> length tcs"
      "map (call_text env) (take (length texts) tcs) = map Some texts"
      "conversation_history s2 = conversation_history ?sA @ tool_turns texts tcs"
      "effects s2 = effects ?sA @ concat (map (call_effects env) (take (Suc (length texts)) tcs))"
      "rt = None \<longrightarrow> length texts = length tcs"
      "rt \<noteq> None \<longrightarrow> length texts < length tcs \<and> call_text env (tcs ! length texts) = None"
    by blast
  have "\<exists>tail. conversation_history s' = conversation_history s2 @ tail
          \<and> effects s' = effects s2
          \<and> (tail = [] \<or> (length texts = length tcs \<and> (\<exists>answer. tail = [assistant_turn answer])))
          \<and> (\<forall>answer. tail = [assistant_turn answer] \<longrightarrow> out = Inr answer)
          \<and> (length texts < length tcs \<longrightarrow>
                tail = [] \<and> call_text env (tcs ! length texts) = None \<and> (\<exists>e. out = Inl e))"
  proof (cases rt)
    case (Some e)
    with out t(6) show ?thesis by simp
  next
    case None
    with out have fa: "final_answer env s2 = (out, s')" by simp
    from final_answer_history [OF fa] final_answer_effects [OF fa] t(5) None
    show ?thesis by (auto simp: assistant_turn_def)
  qed
  then obtain tail where tail: "conversation_history s' = conversation_history s2 @ tail"
    "effects s' = effects s2"
    "tail = [] \<or> (length texts = length tcs \<and> (\<exists>answer. tail = [assistant_turn answer]))"
    "\<forall>answer. tail = [assistant_turn answer] \<longrightarrow> out = Inr answer"
    "length texts < length tcs \<longrightarrow>
       tail = [] \<and> call_text env (tcs ! length texts) = None \<and> (\<exists>e. out = Inl e)"
    by blast
  show ?thesis
  proof (intro exI [of _ texts] exI [of _ tail] conjI)
    show "length texts \<le> length tcs" by (rule t(1))
    show "conversation_history s' =
           conversation_history s @ assistant_tool_turn m tcs # tool_turns texts tcs @ tail"
      using tail(1) t(3) sA by simp
    show "tail = [] \<or> (length texts = length tcs \<and> (\<exists>answer. tail = [assistant_turn answer]))"
      by (rule tail(3))
    show "tool_calls (assistant_tool_turn m tcs) = Some (map tool_call_entry tcs)"
      by (simp add: assistant_tool_turn_def)
    show "map tool_call_id (tool_turns texts tcs)
           = map (\<lambda>tc. Some (tc_id (tool_call_entry tc))) (take (length texts) tcs)"
      by (rule tool_turn_ids)
    show "distinct (map call_id tcs) \<longrightarrow>
            (\<forall>t \<in> set (tool_turns texts tcs).
               length (matching_entries t (map tool_call_entry tcs)) = 1)"
      by (intro impI ballI) (rule tool_turn_matches_once)
    show "assistant_tool_turn m tcs =
           \<lparr>role = ''assistant'', content = msg_content m,
            tool_calls =
              Some (map (\<lambda>tc. \<lparr>tc_id = call_id tc, tc_type = call_type tc,
                                 tc_function = \<lparr>fd_name = call_name tc,
                                                 fd_arguments = call_arguments tc\<rparr>\<rparr>) tcs),
            tool_call_id = None\<rparr>"
      by (simp add: assistant_tool_turn_def tool_call_entry_def)
    show "tool_turns texts tcs =
           map (\<lambda>(dumped, tc). \<lparr>role = ''tool'', content = Some dumped, tool_calls = None,
                                  tool_call_id = Some (call_id tc)\<rparr>) (zip texts tcs)"
      by (simp add: tool_turns_def tool_turn_def)
    show "\<forall>answer. tail = [assistant_turn answer] \<longrightarrow>
            out = Inr answer
            \<and> tail = [\<lparr>role = ''assistant'', content = answer, tool_calls = None,
                        tool_call_id = None\<rparr>]"
      using tail(4) by (simp add: assistant_turn_def)
    show "map (call_text env) (take (length texts) tcs) = map Some texts" by (rule t(2))
    show "effects s' =
           effects s @ concat (map (call_effects env) (take (Suc (length texts)) tcs))"
      using tail(2) t(4) sA(2) by simp
    show "length texts < length tcs \<longrightarrow>
            tail = [] \<and> call_text env (tcs ! length texts) = None \<and> (\<exists>e. out = Inl e)"
      by (rule tail(5))
  qed
qed

lemma twin_attempt:
  "attempt twin_env (append_turn (user_turn ''both'') empty_session)
     = (Inr (Some ''Done.''),
        \<lparr>conversation_history =
           [user_turn ''both'',
            assistant_tool_turn
              \<lparr>msg_content = None, msg_tool_calls = Some [weather_call, email_call]\<rparr>
              [weather_call, email_call],
            tool_turn ''result'' weather_call,
            tool_turn ''result'' email_call,
            assistant_turn (Some ''Done.'')],
         api_log =
           [(\<lparr>req_messages = [user_turn ''both''], req_tools = Some tools,
              req_tool_choice = Some ''auto''\<rparr>,
             asks [weather_call, email_call]),
            (\<lparr>req_messages =
                [user_turn ''both'',
                 assistant_tool_turn
                   \<lparr>msg_content = None, msg_tool_calls = Some [weather_call, email_call]\<rparr>
                   [weather_call, email_call],
                 tool_turn ''result'' weather_call,
                 tool_turn ''result'' email_call],
              req_tools = None, req_tool_choice = None\<rparr>,
             says ''Done.'')],
         sleeps = [],
         effects =
           [HttpGet weather_url (weather_params twin_env (PStr ''Paris'') (PStr ''metric'')),
            SmtpSession ''smtp.gmail.com'' 587 ''your_email@gmail.com'' ''your_app_password''
              \<lparr>mail_from = ''your_email@gmail.com'', mail_to = PStr ''a@b.c'',
               mail_subject = PStr ''hi'', mail_content = PStr ''yo''\<rparr>]\<rparr>)"
  by (simp add: run_defs twin_env_def weather_call_def email_call_def get_real_weather_def
        send_email_def getenv_default_def)

text \<open>
  C4, as stated, fails when the model gives two calls of one batch the same id: the
  program does not look at the ids, and each of the two tool turns then carries an id
  that two entries of the assistant turn have.
\<close>

theorem duplicate_ids_counterexample:
  "conversation_history
     (snd (chat_with_function_calling twin_env ''both'' 3 empty_session))
     = [user_turn ''both'',
        assistant_tool_turn
          \<lparr>msg_content = None, msg_tool_calls = Some [weather_call, email_call]\<rparr>
          [weather_call, email_call],
        tool_turn ''result'' weather_call,
        tool_turn ''result'' email_call,
        assistant_turn (Some ''Done.'')]
   \<and> matching_entries (tool_turn ''result'' weather_call)
        (map tool_call_entry [weather_call, email_call])
     = [tool_call_entry weather_call, tool_call_entry email_call]
   \<and> tool_call_entry weather_call \<noteq> tool_call_entry email_call
   \<and> length (matching_entries (tool_turn ''result'' weather_call)
        (map tool_call_entry [weather_call, email_call])) \<noteq> 1"
proof -
  have lt: "int 0 < 3" by simp
  have "chat_with_function_calling twin_env ''both'' 3 empty_session
          = (Some ''Done.'', snd (attempt twin_env (append_turn (user_turn ''both'') empty_session)))"
    unfolding chat_with_function_calling_def
    by (rule chat_loop_returns [OF lt]) (simp add: twin_attempt)
  then show ?thesis
    by (simp add: twin_attempt matching_entries_def tool_turn_def tool_call_entry_def
          weather_call_def email_call_def)
qed


lemma pair_attempt:
  "attempt pair_env (append_turn (user_turn ''both'') empty_session)
     = (Inr (Some ''Done.''),
        \<lparr>conversation_history =
           [user_turn ''both'',
            assistant_tool_turn
              \<lparr>msg_content = None, msg_tool_calls = Some [weather_call, followup_call]\<rparr>
              [weather_call, followup_call],
            tool_turn ''result'' weather_call,
            tool_turn ''result'' followup_call,
            assistant_turn (Some ''Done.'')],
         api_log =
           [(\<lparr>req_messages = [user_turn ''both''], req_tools = Some tools,
              req_tool_choice = Some ''auto''\<rparr>,
             asks [weather_call, followup_call]),
            (\<lparr>req_messages =
                [user_turn ''both'',
                 assistant_tool_turn
                   \<lparr>msg_content = None, msg_tool_calls = Some [weather_call, followup_call]\<rparr>
                   [weather_call, followup_call],
                 tool_turn ''result'' weather_call,
                 tool_turn ''result'' followup_call],
              req_tools = None, req_tool_choice = None\<rparr>,
             says ''Done.'')],
         sleeps = [],
         effects =
           [HttpGet weather_url (weather_params pair_env (PStr ''Paris'') (PStr ''metric'')),
            email_sent]\<rparr>)"
  by (simp add: run_defs pair_env_def weather_call_def followup_call_def get_real_weather_def
        send_email_def getenv_default_def email_sent_def)

lemma pair_call_effects:
  "call_effects pair_env weather_call
     = [HttpGet weather_url (weather_params pair_env (PStr ''Paris'') (PStr ''metric''))]"
  "call_effects pair_env followup_call = [email_sent]"
  by (simp_all add: call_effects_def run_defs pair_env_def weather_call_def followup_call_def
        get_real_weather_def send_email_def getenv_default_def email_sent_def)

theorem tool_turns_follow_invocations_witness:
  "conversation_history
     (snd (attempt pair_env (append_turn (user_turn ''both'') empty_session)))
     = [user_turn ''both'',
        assistant_tool_turn
          \<lparr>msg_content = None, msg_tool_calls = Some [weather_call, followup_call]\<rparr>
          [weather_call, followup_call],
        tool_turn ''result'' weather_call, tool_turn ''result'' followup_call,
        assistant_turn (Some ''Done.'')]
   \<and> map tool_call_id [tool_turn ''result'' weather_call, tool_turn ''result'' followup_call]
       = [Some ''call_1'', Some ''call_2'']
   \<and> map role [tool_turn ''result'' weather_call, tool_turn ''result'' followup_call]
       = [''tool'', ''tool'']
   \<and> length (matching_entries (tool_turn ''result'' weather_call)
                (map tool_call_entry [weather_call, followup_call])) = 1
   \<and> length (matching_entries (tool_turn ''result'' followup_call)
                (map tool_call_entry [weather_call, followup_call])) = 1
   \<and> effects (snd (attempt pair_env (append_turn (user_turn ''both'') empty_session)))
       = [HttpGet weather_url (weather_params pair_env (PStr ''Paris'') (PStr ''metric'')),
          email_sent]"
proof -
  let ?s0 = "append_turn (user_turn ''both'') empty_session"
  let ?m = "\<lparr>msg_content = None, msg_tool_calls = Some [weather_call, followup_call]\<rparr>"
  let ?tcs = "[weather_call, followup_call]"
  have c: "create pair_env (length (api_log ?s0)) (tools_request ?s0) = Inr (?m # [])"
    by (simp add: pair_env_def stub_env_def scripted_def asks_def append_turn_def
          empty_session_def)
  have tcs: "msg_tool_calls ?m = Some ?tcs" by simp
  have ne: "?tcs \<noteq> []" by simp
  have d: "distinct (map call_id ?tcs)"
    by (simp add: weather_call_def followup_call_def)
  obtain out s' where att: "attempt pair_env ?s0 = (out, s')"
    by (cases "attempt pair_env ?s0")
  from att pair_attempt
  have hist: "conversation_history s' =
           [user_turn ''both'', assistant_tool_turn ?m ?tcs,
            tool_turn ''result'' weather_call, tool_turn ''result'' followup_call,
            assistant_turn (Some ''Done.'')]"
    by auto
  have s0: "conversation_history ?s0 = [user_turn ''both'']" "effects ?s0 = []"
    by (simp_all add: append_turn_def empty_session_def)
  from tool_turns_follow_invocations [OF c tcs ne att] d obtain texts tail
    where h: "conversation_history s' =
         conversation_history ?s0 @ assistant_tool_turn ?m ?tcs # tool_turns texts ?tcs @ tail"
      "tail = [] \<or> (length texts = length ?tcs \<and> (\<exists>answer. tail = [assistant_turn answer]))"
      "map tool_call_id (tool_turns texts ?tcs)
         = map (\<lambda>tc. Some (tc_id (tool_call_entry tc))) (take (length texts) ?tcs)"
      "\<forall>t \<in> set (tool_turns texts ?tcs).
         length (matching_entries t (map tool_call_entry ?tcs)) = 1"
      "tool_turns texts ?tcs =
           map (\<lambda>(dumped, tc). \<lparr>role = ''tool'', content = Some dumped, tool_calls = None,
                                  tool_call_id = Some (call_id tc)\<rparr>) (zip texts ?tcs)"
      "effects s' =
           effects ?s0 @ concat (map (call_effects pair_env) (take (Suc (length texts)) ?tcs))"
    by (elim exE conjE) blast
  from h(1) hist s0
  have eq: "tool_turns texts ?tcs @ tail
              = [tool_turn ''result'' weather_call, tool_turn ''result'' followup_call,
                 assistant_turn (Some ''Done.'')]"
    by simp
  have len: "length (tool_turns texts ?tcs) \<le> 2"
    by (simp add: tool_turns_def)
  have tail: "tail \<noteq> []"
  proof
    assume "tail = []"
    with eq have "length (tool_turns texts ?tcs) = 3" by simp
    with len show False by simp
  qed
  with h(2) obtain answer where a: "tail = [assistant_turn answer]" and l: "length texts = 2"
    by auto
  from eq a have "butlast (tool_turns texts ?tcs @ [assistant_turn answer])
                    = butlast [tool_turn ''result'' weather_call,
                               tool_turn ''result'' followup_call,
                               assistant_turn (Some ''Done.'')]"
    by simp
  then have turns: "tool_turns texts ?tcs
                      = [tool_turn ''result'' weather_call, tool_turn ''result'' followup_call]"
    by simp
  have ids: "map tool_call_id [tool_turn ''result'' weather_call,
                               tool_turn ''result'' followup_call]
               = [Some ''call_1'', Some ''call_2'']"
    using h(3) turns l by (simp add: tool_call_entry_def weather_call_def followup_call_def)
  have roles: "map role [tool_turn ''result'' weather_call, tool_turn ''result'' followup_call]
                 = [''tool'', ''tool'']"
    using h(5) turns l by (cases texts) (auto simp: tool_turn_def)
  have fx: "effects s' =
              [HttpGet weather_url (weather_params pair_env (PStr ''Paris'') (PStr ''metric'')),
               email_sent]"
    using h(6) l s0(2) by (simp add: pair_call_effects)
  from h(4) turns hist att ids roles fx show ?thesis by simp
qed

section \<open>A retry after the tools have run\<close>

lemma run_tools_effects:
  "run_tools env tcs s = (r, s') \<Longrightarrow> \<exists>fx. effects s' = effects s @ fx"
proof (induction tcs arbitrary: s)
  case Nil
  then show ?case by simp
next
  case (Cons tc tcs)
  then show ?case
    by (fastforce simp: append_turn_def split: sum.splits prod.splits)
qed

lemma final_answer_keeps:
  "final_answer env s = (out, s') \<Longrightarrow>
     effects s' = effects s \<and> (\<exists>h. conversation_history s' = conversation_history s @ h)"
  by (auto simp: final_answer_def call_model_def Let_def first_choice_def append_turn_def
        raise_fault_def split: sum.splits list.splits)

lemma attempt_keeps:
  assumes "attempt env s = (out, s')"
  shows "(\<exists>h. conversation_history s' = conversation_history s @ h)
       \<and> (\<exists>fx. effects s' = effects s @ fx)"
proof (cases "create env (length (api_log s)) (tools_request s)")
  case (Inl e)
  from attempt_first_call_raises [OF Inl] assms show ?thesis by auto
next
  case (Inr choices)
  show ?thesis
  proof (cases choices)
    case Nil
    with Inr assms show ?thesis
      by (auto simp: attempt_def call_model_def Let_def first_choice_def raise_fault_def)
  next
    case (Cons m ms)
    with Inr have c: "create env (length (api_log s)) (tools_request s) = Inr (m # ms)" by simp
    note a = attempt_first_call_answers [OF c]
    let ?s1 = "s\<lparr>api_log := api_log s @ [(tools_request s, Inr (m # ms))]\<rparr>"
    show ?thesis
    proof (cases "\<exists>tc tcs. msg_tool_calls m = Some (tc # tcs)")
      case False
      with a assms show ?thesis
        by (auto simp: append_turn_def split: option.splits list.splits)
    next
      case True
      then obtain tc tcs where t: "msg_tool_calls m = Some (tc # tcs)" by blast
      let ?sA = "append_turn (assistant_tool_turn m (tc # tcs)) ?s1"
      obtain rt s2 where rt: "run_tools env (tc # tcs) ?sA = (rt, s2)"
        by (cases "run_tools env (tc # tcs) ?sA")
      from run_tools_history [OF rt] run_tools_effects [OF rt]
      have k2: "(\<exists>h. conversation_history s2 = conversation_history s @ h)
                \<and> (\<exists>fx. effects s2 = effects s @ fx)"
        by (auto simp: append_turn_def)
      show ?thesis
      proof (cases rt)
        case (Some e)
        with a t rt assms k2 show ?thesis by simp
      next
        case None
        with a t rt assms have "final_answer env s2 = (out, s')" by simp
        from final_answer_keeps [OF this] k2 show ?thesis by auto
      qed
    qed
  qed
qed

lemma chat_loop_keeps:
  "chat_loop env N k s = (r, s') \<Longrightarrow>
     (\<exists>h. conversation_history s' = conversation_history s @ h)
     \<and> (\<exists>fx. effects s' = effects s @ fx)"
proof (induction env N k s rule: chat_loop.induct)
  case (1 env N k s)
  show ?case
  proof (cases "int k < N")
    case False
    with "1.prems" show ?thesis by (simp add: chat_loop_exhausted)
  next
    case True
    obtain out s1 where att: "attempt env s = (out, s1)" by (cases "attempt env s")
    note k1 = attempt_keeps [OF att]
    show ?thesis
    proof (cases out)
      case (Inr x)
      with chat_loop_returns [OF True, of env s x s1] att "1.prems" k1 show ?thesis by simp
    next
      case (Inl e)
      with att have att': "attempt env s = (Inl e, s1)" by simp
      note step = chat_loop_retry [OF True att']
      consider (rl) "exn_class e = RateLimitError"
        | (to) "exn_class e \<noteq> RateLimitError" "exn_class e = APITimeoutError"
        | (other) "exn_class e \<noteq> RateLimitError" "exn_class e \<noteq> APITimeoutError"
        by blast
      then show ?thesis
      proof cases
        case rl
        with step "1.prems"
        have "chat_loop env N (k + 1) (s1\<lparr>sleeps := sleeps s1 @ [2 ^ (k + 1)]\<rparr>) = (r, s')"
          by simp
        from "1.IH"(1) [OF True att [symmetric] _ rl this] Inl k1 show ?thesis by auto
      next
        case to
        with step "1.prems" have "chat_loop env N (k + 1) s1 = (r, s')" by simp
        from "1.IH"(2) [OF True att [symmetric] _ to this] Inl k1 show ?thesis by auto
      next
        case other
        with step "1.prems" k1 show ?thesis by simp
      qed
    qed
  qed
qed



text \<open>
  C6. Suppose that, at an attempt within the budget, the model asks for tools, all of them
  run, and the final-answer call then raises a rate-limit or a timeout error. The loop goes
  on with the next attempt from a state that still holds the assistant turn with the tool
  calls, one tool turn per call, and the outbound calls the adapters made; whatever the
  run returns, its history and its effects extend these. When the budget allows another
  attempt, the request after the failed one is again the first request, with tools, over
  the whole history. In the e-mail session below the model then asks for the same e-mail
  again: the e-mail goes out twice and both pairs of turns are in the history.
\<close>

theorem retry_repeats_exchange:
  assumes "int k < N"
    and "create env (length (api_log s)) (tools_request s) = Inr (m # ms)"
    and "msg_tool_calls m = Some (tc # tcs)"
    and "run_tools env (tc # tcs)
           (append_turn (assistant_tool_turn m (tc # tcs))
              (s\<lparr>api_log := api_log s @ [(tools_request s, Inr (m # ms))]\<rparr>)) = (None, s2)"
    and "create env (length (api_log s2)) (final_request s2) = Inl e"
    and "exn_class e = RateLimitError \<or> exn_class e = APITimeoutError"
  shows "chat_loop env N k s =
           chat_loop env N (k + 1)
             (s2\<lparr>api_log := api_log s2 @ [(final_request s2, Inl e)],
                 sleeps := sleeps s2 @ (if exn_class e = RateLimitError then [2 ^ (k + 1)] else [])\<rparr>)
     \<and> (\<exists>texts. length texts = length (tc # tcs)
           \<and> conversation_history s2 =
               conversation_history s @ assistant_tool_turn m (tc # tcs)
                 # tool_turns texts (tc # tcs))
     \<and> (\<exists>fx. effects s2 = effects s @ fx)
     \<and> (\<forall>r s'. chat_loop env N k s = (r, s') \<longrightarrow>
           (\<exists>h. conversation_history s' = conversation_history s2 @ h)
           \<and> (\<exists>fx. effects s' = effects s2 @ fx)
           \<and> (int (k + 1) < N \<longrightarrow>
                (\<exists>rest. api_log s' =
                   api_log s2 @ (final_request s2, Inl e)
                     # (tools_request s2,
                        create env (length (api_log s2) + 1) (tools_request s2)) # rest)))"
proof -
  let ?sA = "append_turn (assistant_tool_turn m (tc # tcs))
              (s\<lparr>api_log := api_log s @ [(tools_request s, Inr (m # ms))]\<rparr>)"
  let ?s3 = "s2\<lparr>api_log := api_log s2 @ [(final_request s2, Inl e)]\<rparr>"
  let ?s4 = "s2\<lparr>api_log := api_log s2 @ [(final_request s2, Inl e)],
                 sleeps := sleeps s2 @ (if exn_class e = RateLimitError then [2 ^ (k + 1)] else [])\<rparr>"
  have att: "attempt env s = (Inl e, ?s3)"
    using assms(3,4) by (simp add: attempt_first_call_answers [OF assms(2)] final_answer_raises [OF assms(5)])
  have step: "chat_loop env N k s = chat_loop env N (k + 1) ?s4"
    using chat_loop_retry [OF assms(1) att] assms(6) by auto
  from run_tools_history [OF assms(4)]
  have hist: "\<exists>texts. length texts = length (tc # tcs)
           \<and> conversation_history s2 =
               conversation_history s @ assistant_tool_turn m (tc # tcs)
                 # tool_turns texts (tc # tcs)"
    by (auto simp: append_turn_def)
  from run_tools_effects [OF assms(4)]
  have fx: "\<exists>fx. effects s2 = effects s @ fx"
    by (simp add: append_turn_def)
  have rest: "(\<exists>h. conversation_history s' = conversation_history s2 @ h)
           \<and> (\<exists>fx. effects s' = effects s2 @ fx)
           \<and> (int (k + 1) < N \<longrightarrow>
                (\<exists>rest. api_log s' =
                   api_log s2 @ (final_request s2, Inl e)
                     # (tools_request s2,
                        create env (length (api_log s2) + 1) (tools_request s2)) # rest))"
    if run: "chat_loop env N k s = (r, s')" for r s'
  proof -
    from run step have cont: "chat_loop env N (k + 1) ?s4 = (r, s')" by simp
    from chat_loop_keeps [OF cont]
    have keep: "(\<exists>h. conversation_history s' = conversation_history s2 @ h)
                \<and> (\<exists>fx. effects s' = effects s2 @ fx)"
      by simp
    have next_request: "\<exists>rest. api_log s' =
                   api_log s2 @ (final_request s2, Inl e)
                     # (tools_request s2,
                        create env (length (api_log s2) + 1) (tools_request s2)) # rest"
      if lt: "int (k + 1) < N"
    proof -
      obtain out s5 where a5: "attempt env ?s4 = (out, s5)" by (cases "attempt env ?s4")
      from attempt_log [OF a5] obtain xs
        where xs: "api_log s5 = api_log ?s4 @
                (tools_request ?s4, create env (length (api_log ?s4)) (tools_request ?s4)) # xs"
        by blast
      from chat_loop_after_attempt [OF lt a5 cont] obtain ys
        where ys: "api_log s' = api_log s5 @ ys" by blast
      have tr: "tools_request ?s4 = tools_request s2" by (simp add: tools_request_def)
      from xs ys tr show ?thesis by simp
    qed
    from keep next_request show ?thesis by blast
  qed
  from step hist fx rest show ?thesis by blast
qed


theorem retry_repeats_exchange_witness:
  "\<exists>s'. chat_with_function_calling email_env ''send'' 3 empty_session = (Some ''Sent.'', s')
     \<and> conversation_history s' =
          [user_turn ''send'',
           email_asked, tool_turn ''result'' email_call,
           email_asked, tool_turn ''result'' email_call,
           assistant_turn (Some ''Sent.'')]
     \<and> effects s' = [email_sent, email_sent]
     \<and> sleeps s' = [2]
     \<and> map snd (api_log s')
         = [asks [email_call], Inl (Exn RateLimitError ''429''), asks [email_call], says ''Sent.'']"
proof -
  let ?s0 = "append_turn (user_turn ''send'') empty_session"
  let ?m = "\<lparr>msg_content = None, msg_tool_calls = Some [email_call]\<rparr>"
  let ?e = "Exn RateLimitError ''429''"
  let ?req1 = "\<lparr>req_messages = [user_turn ''send''], req_tools = Some tools,
                 req_tool_choice = Some ''auto''\<rparr>"
  let ?s2 = "\<lparr>conversation_history =
                [user_turn ''send'', email_asked, tool_turn ''result'' email_call],
              api_log = [(?req1, Inr [?m])], sleeps = [], effects = [email_sent]\<rparr>"
  have lt: "int 0 < 3" by simp
  have c1: "create email_env (length (api_log ?s0)) (tools_request ?s0) = Inr (?m # [])"
    by (simp add: email_env_def stub_env_def scripted_def asks_def append_turn_def
          empty_session_def)
  have tcs: "msg_tool_calls ?m = Some (email_call # [])" by simp
  have rt: "run_tools email_env (email_call # [])
           (append_turn (assistant_tool_turn ?m (email_call # []))
              (?s0\<lparr>api_log := api_log ?s0 @ [(tools_request ?s0, Inr (?m # []))]\<rparr>))
            = (None, ?s2)"
    by (simp add: run_defs email_env_def email_call_def send_email_def getenv_default_def
          email_sent_def email_asked_def)
  have c2: "create email_env (length (api_log ?s2)) (final_request ?s2) = Inl ?e"
    by (simp add: email_env_def stub_env_def scripted_def)
  have cls: "exn_class ?e = RateLimitError \<or> exn_class ?e = APITimeoutError" by simp
  let ?s4 = "?s2\<lparr>api_log := api_log ?s2 @ [(final_request ?s2, Inl ?e)],
                  sleeps := sleeps ?s2 @ (if exn_class ?e = RateLimitError then [2 ^ (0 + 1)] else [])\<rparr>"
  from retry_repeats_exchange [OF lt c1 tcs rt c2 cls]
  have step: "chat_loop email_env 3 0 ?s0 = chat_loop email_env 3 (0 + 1) ?s4"
    by blast
  have att2: "attempt email_env ?s4
     = (Inr (Some ''Sent.''),
        \<lparr>conversation_history =
          [user_turn ''send'',
           email_asked, tool_turn ''result'' email_call,
           email_asked, tool_turn ''result'' email_call,
           assistant_turn (Some ''Sent.'')],
         api_log =
           [(?req1, asks [email_call]),
            (final_request ?s2, Inl ?e),
            (tools_request ?s2, asks [email_call]),
            (\<lparr>req_messages =
                [user_turn ''send'',
                 email_asked, tool_turn ''result'' email_call,
                 email_asked, tool_turn ''result'' email_call],
              req_tools = None, req_tool_choice = None\<rparr>, says ''Sent.'')],
         sleeps = [2], effects = [email_sent, email_sent]\<rparr>)"
    by (simp add: run_defs email_env_def email_call_def send_email_def getenv_default_def
          email_sent_def email_asked_def)
  have lt2: "int (0 + 1) < 3" by simp
  from chat_loop_returns [OF lt2 att2] step
  show ?thesis
    by (simp add: chat_with_function_calling_def)
qed


end
